theory Spec2Isabelle
  imports Main "HOL-Library.AList"
begin

section \<open>Python values\<close>

text \<open>
  The values that \<^verbatim>\<open>json.loads\<close> returns and that the metadata dictionaries hold.
  A Python \<^verbatim>\<open>str\<close> is a \<open>string\<close>; a \<open>char\<close> stands for a code point below 256.
  A \<^verbatim>\<open>dict\<close> is an association list read with \<open>map_of\<close>, in insertion order.
  A finite \<^verbatim>\<open>float\<close> is a mantissa and a binary exponent; \<^verbatim>\<open>json.loads\<close> also accepts
  the non-finite literals.
\<close>

datatype pyfloat = Finite int int | PosInf | NegInf | NaN

datatype json =
    JNull
  | JBool bool
  | JInt int
  | JFloat pyfloat
  | JStr string
  | JArr "json list"
  | JObj "(string \<times> json) list"

type_synonym pydict = "(string \<times> json) list"

datatype py_exception =
    JSONDecodeError
  | AttributeError
  | TypeError
  | ValidationError
  | ValueError
  | RecursionError
  | UnicodeDecodeError
  | OSError
  | EngineError string

text \<open>Truth value testing: \<^verbatim>\<open>None\<close>, \<^verbatim>\<open>False\<close>, zero and empty containers are false.\<close>

fun truthy :: "json \<Rightarrow> bool" where
  "truthy JNull = False"
| "truthy (JBool b) = b"
| "truthy (JInt i) = (i \<noteq> 0)"
| "truthy (JFloat (Finite m e)) = (m \<noteq> 0)"
| "truthy (JFloat PosInf) = True"
| "truthy (JFloat NegInf) = True"
| "truthy (JFloat NaN) = True"
| "truthy (JStr s) = (s \<noteq> [])"
| "truthy (JArr xs) = (xs \<noteq> [])"
| "truthy (JObj kvs) = (kvs \<noteq> [])"

text \<open>\<^verbatim>\<open>x or y\<close> is \<^verbatim>\<open>x\<close> when \<^verbatim>\<open>x\<close> is true and \<^verbatim>\<open>y\<close> otherwise.\<close>

definition py_or :: "json \<Rightarrow> json \<Rightarrow> json" where
  "py_or x y = (if truthy x then x else y)"

text \<open>\<^verbatim>\<open>d.get(k)\<close> and \<^verbatim>\<open>d.get(k, default)\<close> on a dictionary.\<close>

definition dict_get :: "pydict \<Rightarrow> string \<Rightarrow> json" where
  "dict_get d k = (case map_of d k of None \<Rightarrow> JNull | Some v \<Rightarrow> v)"

definition dict_get_default :: "pydict \<Rightarrow> string \<Rightarrow> json \<Rightarrow> json" where
  "dict_get_default d k dflt = (case map_of d k of None \<Rightarrow> dflt | Some v \<Rightarrow> v)"

text \<open>
  \<^verbatim>\<open>str.isspace\<close> on the code points below 256, and \<^verbatim>\<open>str.strip()\<close>, which removes
  leading and trailing whitespace.
\<close>

definition isspace :: "char \<Rightarrow> bool" where
  "isspace c = (of_char c \<in> {9, 10, 11, 12, 13, 28, 29, 30, 31, 32, 133, 160 :: nat})"

definition strip :: "string \<Rightarrow> string" where
  "strip s = rev (dropWhile isspace (rev (dropWhile isspace s)))"

section \<open>The request handler of main.py\<close>

record query_request =
  question :: string
  image :: "string option"

record source_link =
  link_url :: string
  link_title :: string

record query_response =
  answer :: string
  links :: "source_link list"

text \<open>
  What \<^verbatim>\<open>query_engine.query\<close> gives back: the text of \<^verbatim>\<open>str(response)\<close> and the metadata
  dictionaries of \<^verbatim>\<open>response.source_nodes\<close>, in retrieval order. The engine itself is a
  parameter: it returns a response or raises.
\<close>

record engine_response =
  response_str :: string
  source_nodes :: "pydict list"

type_synonym engine = "string \<Rightarrow> py_exception + engine_response"

datatype http_detail =
    Detail string
  | ProcessingError py_exception

datatype http_result =
    HTTPException nat http_detail
  | OK query_response

text \<open>
  \<^verbatim>\<open>SourceLink(url=url, title=title)\<close>: both fields are declared \<^verbatim>\<open>str\<close>; a value of
  another type is rejected by the model's validation.
\<close>

fun SourceLink :: "json \<Rightarrow> json \<Rightarrow> py_exception + source_link" where
  "SourceLink (JStr u) (JStr t) = Inr \<lparr>link_url = u, link_title = t\<rparr>"
| "SourceLink _ _ = Inl ValidationError"

text \<open>The title expression of line 161, for one metadata dictionary.\<close>

definition node_title :: "pydict \<Rightarrow> json" where
  "node_title metadata =
     py_or (py_or (py_or (py_or (dict_get metadata ''title'') (dict_get metadata ''topic_title''))
                         (dict_get metadata ''text''))
                  (dict_get metadata ''url''))
           (JStr ''No Title Available'')"

text \<open>The loop over \<^verbatim>\<open>source_nodes\<close>, with the list \<^verbatim>\<open>links\<close> as the accumulator \<open>acc\<close>.\<close>

fun build_links :: "pydict list \<Rightarrow> source_link list \<Rightarrow> py_exception + source_link list" where
  "build_links [] acc = Inr acc"
| "build_links (metadata # rest) acc =
     (if truthy (dict_get metadata ''url'')
      then (case SourceLink (dict_get metadata ''url'') (node_title metadata) of
              Inl e \<Rightarrow> Inl e
            | Inr l \<Rightarrow> build_links rest (acc @ [l]))
      else build_links rest acc)"

text \<open>
  \<^verbatim>\<open>startup_event\<close>: the global starts as \<^verbatim>\<open>None\<close> and is set only when
  \<^verbatim>\<open>initialize_query_engine\<close> returns; a failure is printed and the global stays unset.
\<close>

definition startup_event :: "py_exception + engine \<Rightarrow> engine option" where
  "startup_event init = (case init of Inl e \<Rightarrow> None | Inr eng \<Rightarrow> Some eng)"

text \<open>
  \<^verbatim>\<open>query_ta\<close>. The second component of the result lists the questions passed to
  \<^verbatim>\<open>query_engine.query\<close> while the request was handled.
\<close>

definition query_ta :: "engine option \<Rightarrow> query_request \<Rightarrow> http_result \<times> string list" where
  "query_ta query_engine request =
     (case query_engine of
        None \<Rightarrow>
          (HTTPException 503 (Detail ''Virtual TA engine not initialized. Please try again later.''), [])
      | Some eng \<Rightarrow>
          (let q = strip (question request) in
           if q = [] then (HTTPException 400 (Detail ''Question cannot be empty.''), [])
           else
             (case eng q of
                Inl e \<Rightarrow> (HTTPException 500 (ProcessingError e), [q])
              | Inr response \<Rightarrow>
                  (case build_links (source_nodes response) [] of
                     Inl e \<Rightarrow> (HTTPException 500 (ProcessingError e), [q])
                   | Inr ls \<Rightarrow> (OK \<lparr>answer = response_str response, links = ls\<rparr>, [q])))))"

text \<open>An engine that answers every question with the same response.\<close>

definition engine_returning :: "engine_response \<Rightarrow> engine" where
  "engine_returning response q = Inr response"

text \<open>
  The title priority in the words of the specification: the first of \<^verbatim>\<open>title\<close>,
  \<^verbatim>\<open>topic_title\<close>, \<^verbatim>\<open>text\<close> and \<^verbatim>\<open>url\<close> that is present, else the literal. A
  field is present when the dictionary holds a value for it that is not empty (Python
  truth): ingestion stores \<^verbatim>\<open>''\<close> for a field the record lacks.
\<close>

definition present :: "pydict \<Rightarrow> string \<Rightarrow> bool" where
  "present metadata k = (case map_of metadata k of None \<Rightarrow> False | Some v \<Rightarrow> truthy v)"

definition title_priority_spec :: "pydict \<Rightarrow> json" where
  "title_priority_spec metadata =
     (if present metadata ''title'' then dict_get metadata ''title''
      else if present metadata ''topic_title'' then dict_get metadata ''topic_title''
      else if present metadata ''text'' then dict_get metadata ''text''
      else if present metadata ''url'' then dict_get metadata ''url''
      else JStr ''No Title Available'')"

section \<open>The document loader of scripts/process_data.py\<close>

record document =
  doc_text :: string
  doc_metadata :: pydict

text \<open>
  \<^verbatim>\<open>Document(text=..., metadata=...)\<close>: a \<^verbatim>\<open>str\<close> is stored as the text; \<^verbatim>\<open>None\<close> is
  accepted and \<^verbatim>\<open>doc.text\<close> then reads as the empty string; a value of another type is
  rejected by the model's validation. The metadata dictionary takes any values.
\<close>

fun Document :: "json \<Rightarrow> pydict \<Rightarrow> py_exception + document" where
  "Document (JStr s) md = Inr \<lparr>doc_text = s, doc_metadata = md\<rparr>"
| "Document JNull md = Inr \<lparr>doc_text = [], doc_metadata = md\<rparr>"
| "Document _ md = Inl ValidationError"

text \<open>\<^verbatim>\<open>sep.join(xs)\<close>: every item has to be a \<^verbatim>\<open>str\<close>, else \<^verbatim>\<open>TypeError\<close>.\<close>

fun str_items :: "json list \<Rightarrow> string list option" where
  "str_items [] = Some []"
| "str_items (JStr s # xs) = (case str_items xs of None \<Rightarrow> None | Some ss \<Rightarrow> Some (s # ss))"
| "str_items (_ # xs) = None"

fun join :: "string \<Rightarrow> string list \<Rightarrow> string" where
  "join sep [] = []"
| "join sep [s] = s"
| "join sep (s # t # ss) = s @ sep @ join sep (t # ss)"

text \<open>Lines 85 and 126: the value stored under \<^verbatim>\<open>tags\<close>.\<close>

definition processed_tags :: "json \<Rightarrow> py_exception + json" where
  "processed_tags tags_value =
     (case tags_value of
        JArr xs \<Rightarrow> (case str_items xs of
                      None \<Rightarrow> Inl TypeError
                    | Some ss \<Rightarrow> Inr (JStr (join '', '' ss)))
      | JNull \<Rightarrow> Inr (JStr [])
      | _ \<Rightarrow> Inr tags_value)"

text \<open>
  Lines 81 to 101, and again lines 123 to 142: from one parsed record to a Document.
  \<^verbatim>\<open>data.get\<close> exists on a dictionary only.
\<close>

definition build_document :: "json \<Rightarrow> py_exception + document" where
  "build_document data =
     (case data of
        JObj d \<Rightarrow>
          (case processed_tags (dict_get d ''tags'') of
             Inl e \<Rightarrow> Inl e
           | Inr tags \<Rightarrow>
               Document (py_or (dict_get d ''content'') (dict_get_default d ''cooked'' (JStr [])))
                 [(''url'', dict_get_default d ''url'' (JStr [])),
                  (''topic_title'', dict_get_default d ''topic_title'' (JStr [])),
                  (''post_id'', dict_get_default d ''post_id'' (JStr [])),
                  (''post_number'', dict_get_default d ''post_number'' (JStr [])),
                  (''author'', dict_get_default d ''author'' (JStr [])),
                  (''created_at'', dict_get_default d ''created_at'' (JStr [])),
                  (''source_type'', JStr ''discourse_post''),
                  (''tags'', tags)])
      | _ \<Rightarrow> Inl AttributeError)"

text \<open>The lines the loader prints, with the values it interpolates.\<close>

datatype message =
    LoadingCourseContent string
  | LoadedCourseContent nat
  | CourseContentNotFound string
  | LoadingDiscoursePosts string
  | WarningEmptyLine nat string
  | ErrorProcessingLine nat string py_exception
  | AttemptingArray string
  | WarningEmptyItem nat string
  | LoadedFromArray nat
  | ErrorNotArray string
  | ErrorParsingFile string
  | ErrorProcessingFile string py_exception
  | DiscourseNotFound string
  | LoadedTotal nat

record loader_state =
  all_documents :: "document list"
  printed :: "message list"

definition append_doc :: "document \<Rightarrow> loader_state \<Rightarrow> loader_state" where
  "append_doc doc st = st\<lparr>all_documents := all_documents st @ [doc]\<rparr>"

definition print :: "message \<Rightarrow> loader_state \<Rightarrow> loader_state" where
  "print m st = st\<lparr>printed := printed st @ [m]\<rparr>"

text \<open>
  \<^verbatim>\<open>str.splitlines()\<close> on the code points below 256: a line ends at LF, CR, CR LF, VT, FF,
  FS, GS, RS or NEL, and no empty line follows the last line end.
\<close>

definition is_linebreak :: "char \<Rightarrow> bool" where
  "is_linebreak c = (of_char c \<in> {10, 11, 12, 13, 28, 29, 30, 133 :: nat})"

fun splitlines_from :: "string \<Rightarrow> string \<Rightarrow> string list" where
  "splitlines_from cur [] = (if cur = [] then [] else [cur])"
| "splitlines_from cur [c] = (if is_linebreak c then [cur] else [cur @ [c]])"
| "splitlines_from cur (c # d # cs) =
     (if c = CHR 0x0D \<and> d = CHR 0x0A then cur # splitlines_from [] cs
      else if is_linebreak c then cur # splitlines_from [] (d # cs)
      else splitlines_from (cur @ [c]) (d # cs))"

definition splitlines :: "string \<Rightarrow> string list" where
  "splitlines s = splitlines_from [] s"

definition endswith :: "string \<Rightarrow> string \<Rightarrow> bool" where
  "endswith s suf = (length suf \<le> length s \<and> drop (length s - length suf) s = suf)"

text \<open>
  The loop of lines 73 to 114 over the enumerated lines of one file. \<open>loads\<close> is
  \<^verbatim>\<open>json.loads\<close>: it returns a value or raises, \<^verbatim>\<open>JSONDecodeError\<close> on text that is not
  JSON and possibly another exception (\<^verbatim>\<open>RecursionError\<close> on deep nesting). The first
  handler takes \<^verbatim>\<open>JSONDecodeError\<close>; the second takes every other exception, of
  \<^verbatim>\<open>json.loads\<close> (raised before \<^verbatim>\<open>is_jsonl\<close> and \<^verbatim>\<open>lines_processed\<close> are set) and of the
  lines after it. The result is \<open>Inr is_jsonl\<close> when the loop ends or breaks and \<open>Inl e\<close>
  when it re-raises; the state holds what was appended and printed until then.
\<close>

fun jsonl_loop ::
  "(string \<Rightarrow> py_exception + json) \<Rightarrow> string \<Rightarrow> nat \<Rightarrow> string list \<Rightarrow> nat \<Rightarrow> bool
     \<Rightarrow> loader_state \<Rightarrow> (py_exception + bool) \<times> loader_state" where
  "jsonl_loop loads filename line_num [] lines_processed is_jsonl st = (Inr is_jsonl, st)"
| "jsonl_loop loads filename line_num (line # rest) lines_processed is_jsonl st =
     (if strip line \<noteq> [] then
        (case loads line of
           Inl e \<Rightarrow>
             (if e = JSONDecodeError then
                (if lines_processed = 0 \<and> line_num = 0 then (Inr False, st)
                 else (Inl JSONDecodeError, st))
              else jsonl_loop loads filename (Suc line_num) rest lines_processed is_jsonl
                     (print (ErrorProcessingLine (line_num + 1) filename e) st))
         | Inr data \<Rightarrow>
             (case build_document data of
                Inl e \<Rightarrow>
                  jsonl_loop loads filename (Suc line_num) rest (Suc lines_processed) True
                    (print (ErrorProcessingLine (line_num + 1) filename e) st)
              | Inr doc \<Rightarrow>
                  if strip (doc_text doc) \<noteq> []
                  then jsonl_loop loads filename (Suc line_num) rest (Suc lines_processed) True
                         (append_doc doc st)
                  else jsonl_loop loads filename (Suc line_num) rest (Suc lines_processed) True
                         (print (WarningEmptyLine (line_num + 1) filename) st)))
      else jsonl_loop loads filename (Suc line_num) rest lines_processed is_jsonl st)"

text \<open>
  The loop of lines 121 to 146 over the items of the array. No handler surrounds an
  item: an exception leaves the loop.
\<close>

fun array_loop ::
  "string \<Rightarrow> nat \<Rightarrow> json list \<Rightarrow> loader_state \<Rightarrow> py_exception option \<times> loader_state" where
  "array_loop filename item_num [] st = (None, st)"
| "array_loop filename item_num (data # rest) st =
     (case build_document data of
        Inl e \<Rightarrow> (Some e, st)
      | Inr doc \<Rightarrow>
          if strip (doc_text doc) \<noteq> []
          then array_loop filename (Suc item_num) rest (append_doc doc st)
          else array_loop filename (Suc item_num) rest
                 (print (WarningEmptyItem (item_num + 1) filename) st))"

definition is_discourse_post :: "document \<Rightarrow> bool" where
  "is_discourse_post d = (dict_get (doc_metadata d) ''source_type'' = JStr ''discourse_post'')"

text \<open>The body of the \<^verbatim>\<open>try\<close> of lines 69 to 149, with the exception that leaves it.\<close>

definition try_file ::
  "(string \<Rightarrow> py_exception + json) \<Rightarrow> string \<Rightarrow> string \<Rightarrow> loader_state
     \<Rightarrow> py_exception option \<times> loader_state" where
  "try_file loads filename file_content st =
     (case jsonl_loop loads filename 0 (splitlines file_content) 0 False st of
        (Inl e, st1) \<Rightarrow> (Some e, st1)
      | (Inr is_jsonl, st1) \<Rightarrow>
          if \<not> is_jsonl then
            (let st2 = print (AttemptingArray filename) st1 in
             case loads file_content of
               Inl e \<Rightarrow> (Some e, st2)
             | Inr (JArr items) \<Rightarrow>
                 (case array_loop filename 0 items st2 of
                    (Some e, st3) \<Rightarrow> (Some e, st3)
                  | (None, st3) \<Rightarrow>
                      (None, print (LoadedFromArray
                                      (length (filter is_discourse_post (all_documents st3)))) st3))
             | Inr _ \<Rightarrow> (None, print (ErrorNotArray filename) st2))
          else (None, st1))"

text \<open>The \<^verbatim>\<open>try\<close> with its two handlers, lines 151 to 154.\<close>

definition process_file ::
  "(string \<Rightarrow> py_exception + json) \<Rightarrow> string \<Rightarrow> string \<Rightarrow> loader_state \<Rightarrow> loader_state" where
  "process_file loads filename file_content st =
     (case try_file loads filename file_content st of
        (None, st1) \<Rightarrow> st1
      | (Some JSONDecodeError, st1) \<Rightarrow> print (ErrorParsingFile filename) st1
      | (Some e, st1) \<Rightarrow> print (ErrorProcessingFile filename e) st1)"

text \<open>
  The loop of line 64 over the directory listing. Each entry is a file name with what
  \<^verbatim>\<open>open\<close> and \<^verbatim>\<open>f.read()\<close> of lines 67 and 68 give for it: the text of the file, or the
  exception they raise (\<^verbatim>\<open>UnicodeDecodeError\<close> on bytes that are not UTF-8, \<^verbatim>\<open>OSError\<close> on
  an entry that is a directory or cannot be opened). Both lines stand before the
  \<^verbatim>\<open>try\<close> of line 69, so their exception leaves the loop and the function. The result
  is \<open>None\<close> when the loop ends and \<open>Some e\<close> when \<open>e\<close> is raised.
\<close>

fun discourse_loop ::
  "(string \<Rightarrow> py_exception + json) \<Rightarrow> (string \<times> (py_exception + string)) list \<Rightarrow> loader_state
     \<Rightarrow> py_exception option \<times> loader_state" where
  "discourse_loop loads [] st = (None, st)"
| "discourse_loop loads ((filename, opened) # rest) st =
     (if endswith filename ''.jsonl'' \<or> endswith filename ''.json''
      then (case opened of
              Inl e \<Rightarrow> (Some e, st)
            | Inr file_content \<Rightarrow>
                discourse_loop loads rest (process_file loads filename file_content st))
      else discourse_loop loads rest st)"

text \<open>Lines 49 to 54: the documents of the Markdown reader, tagged and appended.\<close>

fun course_loop :: "document list \<Rightarrow> loader_state \<Rightarrow> loader_state" where
  "course_loop [] st = st"
| "course_loop (doc # rest) st =
     course_loop rest
       (append_doc
          (doc\<lparr>doc_metadata := AList.update ''source_type'' (JStr ''course_content'') (doc_metadata doc)\<rparr>)
          st)"

text \<open>
  Lines 36 to 57. \<open>course_content\<close> is \<open>None\<close> when the directory is missing; otherwise
  it is what \<^verbatim>\<open>SimpleDirectoryReader(...)\<close> and \<^verbatim>\<open>reader.load_data()\<close> give: the documents,
  or the exception they raise (\<^verbatim>\<open>ValueError\<close> on a directory without files). No handler
  surrounds them.
\<close>

definition load_course_content ::
  "string \<Rightarrow> (py_exception + document list) option \<Rightarrow> loader_state
     \<Rightarrow> py_exception option \<times> loader_state" where
  "load_course_content data_dir course_content st =
     (case course_content of
        Some reader \<Rightarrow>
          (let st1 = print (LoadingCourseContent data_dir) st in
           case reader of
             Inl e \<Rightarrow> (Some e, st1)
           | Inr course_docs \<Rightarrow>
               (None, print (LoadedCourseContent (length course_docs)) (course_loop course_docs st1)))
      | None \<Rightarrow> (None, print (CourseContentNotFound data_dir) st))"

text \<open>
  Lines 60 to 156. \<open>discourse_posts\<close> is \<open>None\<close> when the directory is missing; otherwise
  it is what \<^verbatim>\<open>os.listdir\<close> gives: the entries, each with the outcome of reading it, or the
  exception \<^verbatim>\<open>os.listdir\<close> raises.
\<close>

definition load_discourse_posts ::
  "(string \<Rightarrow> py_exception + json) \<Rightarrow> string
     \<Rightarrow> (py_exception + (string \<times> (py_exception + string)) list) option \<Rightarrow> loader_state
     \<Rightarrow> py_exception option \<times> loader_state" where
  "load_discourse_posts loads data_dir discourse_posts st =
     (case discourse_posts of
        Some listing \<Rightarrow>
          (let st1 = print (LoadingDiscoursePosts data_dir) st in
           case listing of
             Inl e \<Rightarrow> (Some e, st1)
           | Inr files \<Rightarrow> discourse_loop loads files st1)
      | None \<Rightarrow> (None, print (DiscourseNotFound data_dir) st))"

text \<open>
  \<^verbatim>\<open>load_documents_with_metadata\<close>. The result is \<open>(None, st)\<close> when the function returns
  the documents of \<open>st\<close>, and \<open>(Some e, st)\<close> when it raises \<open>e\<close> after the appends and
  prints that \<open>st\<close> holds.
\<close>

definition load_documents_with_metadata ::
  "(string \<Rightarrow> py_exception + json) \<Rightarrow> string \<Rightarrow> (py_exception + document list) option
     \<Rightarrow> (py_exception + (string \<times> (py_exception + string)) list) option
     \<Rightarrow> py_exception option \<times> loader_state" where
  "load_documents_with_metadata loads data_dir course_content discourse_posts =
     (case load_course_content data_dir course_content \<lparr>all_documents = [], printed = []\<rparr> of
        (Some e, st1) \<Rightarrow> (Some e, st1)
      | (None, st1) \<Rightarrow>
          (case load_discourse_posts loads data_dir discourse_posts st1 of
             (Some e, st2) \<Rightarrow> (Some e, st2)
           | (None, st2) \<Rightarrow> (None, print (LoadedTotal (length (all_documents st2))) st2)))"

text \<open>
  A \<^verbatim>\<open>json.loads\<close> given by a table, for concrete runs: a text of the table gives the
  outcome listed for it, and every other text is not JSON.
\<close>

definition loads_table :: "(string \<times> (py_exception + json)) list \<Rightarrow> string \<Rightarrow> py_exception + json" where
  "loads_table t s = (case map_of t s of None \<Rightarrow> Inl JSONDecodeError | Some r \<Rightarrow> r)"

text \<open>The listing of a directory whose files were all read: each name with its text.\<close>

definition files_read :: "(string \<times> string) list \<Rightarrow> (string \<times> (py_exception + string)) list" where
  "files_read texts = map (\<lambda>(filename, file_content). (filename, Inr file_content)) texts"

section \<open>What one record, one line and one file contribute\<close>

text \<open>
  The documents that the body of either loop appends for one parsed record: the built
  Document when its text is not blank, nothing when building raises or the text is blank.
\<close>

definition record_documents :: "json \<Rightarrow> document list" where
  "record_documents data =
     (case build_document data of
        Inl e \<Rightarrow> []
      | Inr doc \<Rightarrow> if strip (doc_text doc) \<noteq> [] then [doc] else [])"

text \<open>The documents one line of a line-delimited file contributes.\<close>

definition line_documents :: "(string \<Rightarrow> py_exception + json) \<Rightarrow> string \<Rightarrow> document list" where
  "line_documents loads line =
     (if strip line = [] then []
      else case loads line of Inl e \<Rightarrow> [] | Inr data \<Rightarrow> record_documents data)"

text \<open>
  A line the loop gets past: a blank line, or a line on which \<^verbatim>\<open>json.loads\<close> does not
  raise \<^verbatim>\<open>JSONDecodeError\<close>.
\<close>

definition line_parses :: "(string \<Rightarrow> py_exception + json) \<Rightarrow> string \<Rightarrow> bool" where
  "line_parses loads line =
     (if strip line = [] then True
      else (case loads line of Inl e \<Rightarrow> e \<noteq> JSONDecodeError | Inr data \<Rightarrow> True))"

text \<open>
  A line that leaves \<^verbatim>\<open>is_jsonl\<close> and \<^verbatim>\<open>lines_processed\<close> as they are: a blank line, or a
  line on which \<^verbatim>\<open>json.loads\<close> raises an exception other than \<^verbatim>\<open>JSONDecodeError\<close>.
\<close>

definition line_inert :: "(string \<Rightarrow> py_exception + json) \<Rightarrow> string \<Rightarrow> bool" where
  "line_inert loads line =
     (if strip line = [] then True
      else (case loads line of Inl e \<Rightarrow> e \<noteq> JSONDecodeError | Inr data \<Rightarrow> False))"

text \<open>An array item the loop gets past: building its Document does not raise.\<close>

definition item_builds :: "json \<Rightarrow> bool" where
  "item_builds data = (case build_document data of Inl e \<Rightarrow> False | Inr doc \<Rightarrow> True)"


section \<open>Lemmas about the request handler\<close>

lemma strip_spaces: "strip ''   '' = []"
  by (simp add: strip_def isspace_def)

lemma SourceLink_Inr:
  "SourceLink u t = Inr l \<Longrightarrow> u = JStr (link_url l) \<and> t = JStr (link_title l)"
  by (cases "(u, t)" rule: SourceLink.cases) auto

lemma build_links_fields:
  "build_links nodes acc = Inr ls \<Longrightarrow>
   map (\<lambda>l. (JStr (link_url l), JStr (link_title l))) ls =
     map (\<lambda>l. (JStr (link_url l), JStr (link_title l))) acc
     @ map (\<lambda>m. (dict_get m ''url'', node_title m))
         (filter (\<lambda>m. truthy (dict_get m ''url'')) nodes)"
proof (induction nodes arbitrary: acc)
  case Nil
  then show ?case by simp
next
  case (Cons m nodes)
  show ?case
  proof (cases "truthy (dict_get m ''url'')")
    case False
    with Cons show ?thesis by simp
  next
    case True
    with Cons.prems obtain l where
      l: "SourceLink (dict_get m ''url'') (node_title m) = Inr l"
      and rest: "build_links nodes (acc @ [l]) = Inr ls"
      by (auto split: sum.splits)
    from Cons.IH [OF rest] SourceLink_Inr [OF l] True show ?thesis by simp
  qed
qed

lemma node_title_spec: "node_title m = title_priority_spec m"
  by (simp add: node_title_def title_priority_spec_def present_def py_or_def dict_get_def
      split: option.splits)

lemma query_ta_OK:
  "query_ta (Some eng) request = (OK r, calls) \<Longrightarrow>
   \<exists>response ls. eng (strip (question request)) = Inr response
     \<and> build_links (source_nodes response) [] = Inr ls
     \<and> r = \<lparr>answer = response_str response, links = ls\<rparr>
     \<and> calls = [strip (question request)]"
  by (auto simp: query_ta_def Let_def split: if_splits sum.splits)

section \<open>Lemmas about the document loader\<close>

subsection \<open>State updates\<close>

lemma all_documents_print [simp]: "all_documents (print m st) = all_documents st"
  by (simp add: print_def)

lemma all_documents_append_doc [simp]:
  "all_documents (append_doc doc st) = all_documents st @ [doc]"
  by (simp add: append_doc_def)

lemma printed_print [simp]: "printed (print m st) = printed st @ [m]"
  by (simp add: print_def)

lemma printed_append_doc [simp]: "printed (append_doc doc st) = printed st"
  by (simp add: append_doc_def)

subsection \<open>Building one Document\<close>

lemma strip_Nil [simp]: "strip [] = []"
  by (simp add: strip_def)

lemma strip_nonblank_head: "\<not> isspace c \<Longrightarrow> strip (c # s) \<noteq> []"
  by (auto simp: strip_def dropWhile_eq_Nil_conv)

lemma Document_Inr:
  "Document t md = Inr doc \<Longrightarrow>
   (t = JStr (doc_text doc) \<or> t = JNull \<and> doc_text doc = []) \<and> doc_metadata doc = md"
  by (cases "(t, md)" rule: Document.cases) auto

lemma build_document_Inr:
  "build_document data = Inr doc \<Longrightarrow>
   \<exists>d tags. data = JObj d \<and> processed_tags (dict_get d ''tags'') = Inr tags
     \<and> (py_or (dict_get d ''content'') (dict_get_default d ''cooked'' (JStr [])) = JStr (doc_text doc)
        \<or> py_or (dict_get d ''content'') (dict_get_default d ''cooked'' (JStr [])) = JNull
          \<and> doc_text doc = [])
     \<and> dict_get (doc_metadata doc) ''tags'' = tags
     \<and> dict_get (doc_metadata doc) ''source_type'' = JStr ''discourse_post''"
  by (cases data) (auto simp: build_document_def dict_get_def split: sum.splits dest!: Document_Inr)



lemma str_items_Some: "str_items xs = Some ss \<Longrightarrow> xs = map JStr ss"
  by (induction xs arbitrary: ss rule: str_items.induct) (auto split: option.splits)

lemma processed_tags_cases:
  "processed_tags v = Inr t \<Longrightarrow>
     (\<forall>xs. v = JArr xs \<longrightarrow> (\<exists>ss. xs = map JStr ss \<and> t = JStr (join '', '' ss)))
   \<and> (v = JNull \<longrightarrow> t = JStr [])
   \<and> ((\<forall>xs. v \<noteq> JArr xs) \<and> v \<noteq> JNull \<longrightarrow> t = v)
   \<and> (\<forall>xs. t \<noteq> JArr xs)"
  by (cases v) (auto simp: processed_tags_def split: option.splits dest: str_items_Some)

lemma record_documents_nonblank: "doc \<in> set (record_documents data) \<Longrightarrow> strip (doc_text doc) \<noteq> []"
  by (auto simp: record_documents_def split: sum.splits if_splits)

lemma line_documents_nonblank: "doc \<in> set (line_documents loads line) \<Longrightarrow> strip (doc_text doc) \<noteq> []"
  by (auto simp: line_documents_def split: if_splits sum.splits dest: record_documents_nonblank)

subsection \<open>The loop over lines\<close>

text \<open>
  The six ways a line goes through the body of the loop: it is blank, it is not JSON,
  \<^verbatim>\<open>json.loads\<close> raises something else, building the Document raises, the Document is
  appended, or its text is blank.
\<close>

lemma line_cases [case_names blank invalid raised failed kept dropped]:
  assumes "strip line = [] \<Longrightarrow> P"
    and "strip line \<noteq> [] \<Longrightarrow> loads line = Inl JSONDecodeError \<Longrightarrow> P"
    and "\<And>e. strip line \<noteq> [] \<Longrightarrow> loads line = Inl e \<Longrightarrow> e \<noteq> JSONDecodeError \<Longrightarrow> P"
    and "\<And>data e. strip line \<noteq> [] \<Longrightarrow> loads line = Inr data \<Longrightarrow> build_document data = Inl e \<Longrightarrow> P"
    and "\<And>data doc. strip line \<noteq> [] \<Longrightarrow> loads line = Inr data \<Longrightarrow> build_document data = Inr doc
           \<Longrightarrow> strip (doc_text doc) \<noteq> [] \<Longrightarrow> P"
    and "\<And>data doc. strip line \<noteq> [] \<Longrightarrow> loads line = Inr data \<Longrightarrow> build_document data = Inr doc
           \<Longrightarrow> strip (doc_text doc) = [] \<Longrightarrow> P"
  shows P
proof (cases "strip line = []")
  case True
  then show ?thesis by (rule assms(1))
next
  case False
  show ?thesis
  proof (cases "loads line")
    case (Inl e)
    with False assms(2,3) show ?thesis by (cases "e = JSONDecodeError") auto
  next
    case (Inr data)
    show ?thesis
    proof (cases "build_document data")
      case (Inl e)
      with False Inr show ?thesis by (rule assms(4))
    next
      case r: (Inr doc)
      with False Inr assms(5,6) show ?thesis by (cases "strip (doc_text doc) = []") auto
    qed
  qed
qed

lemma jsonl_loop_documents:
  "all_documents (snd (jsonl_loop loads fn n lines lp ij st)) =
     all_documents st @ concat (map (line_documents loads) (takeWhile (line_parses loads) lines))"
proof (induction lines arbitrary: n lp ij st)
  case Nil
  then show ?case by simp
next
  case (Cons line lines)
  show ?case
    by (cases rule: line_cases [where line = line and loads = loads])
      (simp_all add: Cons.IH line_documents_def line_parses_def record_documents_def)
qed

lemma jsonl_loop_outcome_state:
  "fst (jsonl_loop loads fn n lines lp ij st) = fst (jsonl_loop loads fn n lines lp ij st')"
proof (induction lines arbitrary: n lp ij st st')
  case Nil
  then show ?case by simp
next
  case (Cons line lines)
  show ?case
    by (cases rule: line_cases [where line = line and loads = loads]) (auto intro: Cons.IH)
qed

lemma jsonl_loop_printed_mono:
  "m \<in> set (printed st) \<Longrightarrow> m \<in> set (printed (snd (jsonl_loop loads fn n lines lp ij st)))"
proof (induction lines arbitrary: n lp ij st)
  case Nil
  then show ?case by simp
next
  case (Cons line lines)
  then show ?case
    by (cases rule: line_cases [where line = line and loads = loads]) simp_all
qed

lemma jsonl_loop_attempting:
  "AttemptingArray f \<in> set (printed (snd (jsonl_loop loads fn n lines lp ij st)))
     \<longleftrightarrow> AttemptingArray f \<in> set (printed st)"
proof (induction lines arbitrary: n lp ij st)
  case Nil
  then show ?case by simp
next
  case (Cons line lines)
  show ?case
    by (cases rule: line_cases [where line = line and loads = loads]) (simp_all add: Cons.IH)
qed

lemma jsonl_loop_logs_error:
  "i < length (takeWhile (line_parses loads) lines) \<Longrightarrow> strip (lines ! i) \<noteq> [] \<Longrightarrow>
   loads (lines ! i) = Inr data \<Longrightarrow> build_document data = Inl e \<Longrightarrow>
   ErrorProcessingLine (n + i + 1) fn e
     \<in> set (printed (snd (jsonl_loop loads fn n lines lp ij st)))"
proof (induction lines arbitrary: n i lp ij st)
  case Nil
  then show ?case by simp
next
  case (Cons line lines)
  show ?case
  proof (cases i)
    case 0
    with Cons.prems show ?thesis
      by (simp add: jsonl_loop_printed_mono)
  next
    case (Suc j)
    from Cons.prems Suc have p: "line_parses loads line"
      by (simp split: if_splits)
    from Cons.prems Suc p have j: "j < length (takeWhile (line_parses loads) lines)"
      and s: "strip (lines ! j) \<noteq> []" and l: "loads (lines ! j) = Inr data"
      by simp_all
    note IH = Cons.IH [OF j s l Cons.prems(4), of "Suc n"]
    from p IH Suc show ?thesis
      by (cases rule: line_cases [where line = line and loads = loads]) (simp_all add: line_parses_def)
  qed
qed

lemma jsonl_loop_logs_raise:
  "i < length (takeWhile (line_parses loads) lines) \<Longrightarrow> strip (lines ! i) \<noteq> [] \<Longrightarrow>
   loads (lines ! i) = Inl e \<Longrightarrow> e \<noteq> JSONDecodeError \<Longrightarrow>
   ErrorProcessingLine (n + i + 1) fn e
     \<in> set (printed (snd (jsonl_loop loads fn n lines lp ij st)))"
proof (induction lines arbitrary: n i lp ij st)
  case Nil
  then show ?case by simp
next
  case (Cons line lines)
  show ?case
  proof (cases i)
    case 0
    with Cons.prems show ?thesis
      by (simp add: jsonl_loop_printed_mono)
  next
    case (Suc j)
    from Cons.prems Suc have p: "line_parses loads line"
      by (simp split: if_splits)
    from Cons.prems Suc p have j: "j < length (takeWhile (line_parses loads) lines)"
      and s: "strip (lines ! j) \<noteq> []" and l: "loads (lines ! j) = Inl e"
      by simp_all
    note IH = Cons.IH [OF j s l Cons.prems(4), of "Suc n"]
    from p IH Suc show ?thesis
      by (cases rule: line_cases [where line = line and loads = loads]) (simp_all add: line_parses_def)
  qed
qed

lemma jsonl_loop_later_lines:
  "0 < n \<Longrightarrow>
   fst (jsonl_loop loads fn n lines lp ij st) = Inr False
     \<longleftrightarrow> \<not> ij \<and> list_all (line_inert loads) lines"
proof (induction lines arbitrary: n lp ij st)
  case Nil
  then show ?case by simp
next
  case (Cons line lines)
  note IH = Cons.IH [of "Suc n"]
  from Cons.prems show ?case
    by (cases rule: line_cases [where line = line and loads = loads]) (simp_all add: IH line_inert_def)
qed

lemma jsonl_loop_fallback:
  "fst (jsonl_loop loads fn 0 lines 0 False st) = Inr False
     \<longleftrightarrow> list_all (line_inert loads) lines
          \<or> (\<exists>l rest. lines = l # rest \<and> strip l \<noteq> [] \<and> loads l = Inl JSONDecodeError)"
proof (cases lines)
  case Nil
  then show ?thesis by simp
next
  case (Cons line rest)
  note L = jsonl_loop_later_lines [of "Suc 0" loads fn rest]
  from Cons show ?thesis
    by (cases rule: line_cases [where line = line and loads = loads]) (simp_all add: L line_inert_def)
qed

lemma jsonl_loop_fallback_documents:
  "fst (jsonl_loop loads fn n lines lp False st) = Inr False \<Longrightarrow>
   all_documents (snd (jsonl_loop loads fn n lines lp False st)) = all_documents st"
proof (induction lines arbitrary: n st)
  case Nil
  then show ?case by simp
next
  case (Cons line lines)
  have L: "\<And>s. fst (jsonl_loop loads fn (Suc n) lines (Suc lp) True s) \<noteq> Inr False"
    using jsonl_loop_later_lines [of "Suc n" loads fn lines "Suc lp" True] by simp
  from Cons.prems show ?case
    by (cases rule: line_cases [where line = line and loads = loads]) (simp_all add: Cons.IH L split: if_splits)
qed

lemma jsonl_loop_invalid_line:
  "list_all (line_parses loads) pre \<Longrightarrow> strip bad \<noteq> [] \<Longrightarrow> loads bad = Inl JSONDecodeError \<Longrightarrow>
   0 < n + length pre \<Longrightarrow>
   fst (jsonl_loop loads fn n (pre @ bad # post) lp ij st) = Inl JSONDecodeError"
proof (induction pre arbitrary: n lp ij st)
  case Nil
  then show ?case by simp
next
  case (Cons line pre)
  from Cons.prems have p: "line_parses loads line" and ps: "list_all (line_parses loads) pre"
    by simp_all
  note IH = Cons.IH [OF ps Cons.prems(2) Cons.prems(3), of "Suc n"]
  from p show ?case
    by (cases rule: line_cases [where line = line and loads = loads]) (simp_all add: IH line_parses_def)
qed

lemma takeWhile_parsed_prefix:
  "list_all (line_parses loads) pre \<Longrightarrow> strip bad \<noteq> [] \<Longrightarrow> loads bad = Inl JSONDecodeError \<Longrightarrow>
   takeWhile (line_parses loads) (pre @ bad # post) = pre"
  by (simp add: takeWhile_tail line_parses_def list_all_iff)

subsection \<open>The loop over array items\<close>

lemma array_loop_documents:
  "all_documents (snd (array_loop fn n items st)) =
     all_documents st @ concat (map record_documents (takeWhile item_builds items))"
proof (induction items arbitrary: n st)
  case Nil
  then show ?case by simp
next
  case (Cons data items)
  show ?case
    by (cases "build_document data")
      (simp_all add: Cons.IH record_documents_def item_builds_def)
qed

lemma array_loop_outcome_state:
  "fst (array_loop fn n items st) = fst (array_loop fn n items st')"
proof (induction items arbitrary: n st st')
  case Nil
  then show ?case by simp
next
  case (Cons data items)
  show ?case
    by (cases "build_document data") (auto intro: Cons.IH)
qed

lemma array_loop_printed_mono:
  "m \<in> set (printed st) \<Longrightarrow> m \<in> set (printed (snd (array_loop fn n items st)))"
proof (induction items arbitrary: n st)
  case Nil
  then show ?case by simp
next
  case (Cons data items)
  then show ?case
    by (cases "build_document data") simp_all
qed

subsection \<open>One file\<close>

lemma try_file_documents:
  "all_documents (snd (try_file loads fn c st)) =
     all_documents st @ all_documents (snd (try_file loads fn c \<lparr>all_documents = [], printed = []\<rparr>))"
proof -
  let ?e = "\<lparr>all_documents = [], printed = []\<rparr>"
  obtain r st1 where J: "jsonl_loop loads fn 0 (splitlines c) 0 False st = (r, st1)"
    by (cases "jsonl_loop loads fn 0 (splitlines c) 0 False st")
  obtain r' st1' where J': "jsonl_loop loads fn 0 (splitlines c) 0 False ?e = (r', st1')"
    by (cases "jsonl_loop loads fn 0 (splitlines c) 0 False ?e")
  have r: "r' = r"
    using jsonl_loop_outcome_state [of loads fn 0 "splitlines c" 0 False st ?e] J J' by simp
  have d1: "all_documents st1 = all_documents st @ all_documents st1'"
    using jsonl_loop_documents [of loads fn 0 "splitlines c" 0 False st]
      jsonl_loop_documents [of loads fn 0 "splitlines c" 0 False ?e] J J' by simp
  show ?thesis
  proof (cases r)
    case (Inl e)
    with J J' r d1 show ?thesis by (simp add: try_file_def)
  next
    case (Inr is_jsonl)
    show ?thesis
    proof (cases is_jsonl)
      case True
      with Inr J J' r d1 show ?thesis by (simp add: try_file_def)
    next
      case False
      show ?thesis
      proof (cases "loads c")
        case (Inl e)
        with False Inr J J' r d1 show ?thesis by (simp add: try_file_def)
      next
        case v: (Inr v)
        show ?thesis
        proof (cases "\<exists>items. v = JArr items")
          case False
          with v \<open>\<not> is_jsonl\<close> Inr J J' r d1 show ?thesis
            by (cases v) (simp_all add: try_file_def)
        next
          case True
          then obtain items where i: "v = JArr items" by blast
          let ?s2 = "print (AttemptingArray fn) st1" and ?s2' = "print (AttemptingArray fn) st1'"
          obtain a st3 where A: "array_loop fn 0 items ?s2 = (a, st3)"
            by (cases "array_loop fn 0 items ?s2")
          obtain a' st3' where A': "array_loop fn 0 items ?s2' = (a', st3')"
            by (cases "array_loop fn 0 items ?s2'")
          have a: "a' = a"
            using array_loop_outcome_state [of fn 0 items ?s2 ?s2'] A A' by simp
          have d3: "all_documents st3 = all_documents st @ all_documents st3'"
            using array_loop_documents [of fn 0 items ?s2]
              array_loop_documents [of fn 0 items ?s2'] A A' d1 by simp
          from v i \<open>\<not> is_jsonl\<close> Inr J J' r A A' a d3 show ?thesis
            by (cases a) (simp_all add: try_file_def)
        qed
      qed
    qed
  qed
qed

lemma process_file_try_documents:
  "all_documents (process_file loads fn c st) = all_documents (snd (try_file loads fn c st))"
proof (cases "try_file loads fn c st")
  case (Pair r st1)
  then show ?thesis
  proof (cases r)
    case None
    with Pair show ?thesis by (simp add: process_file_def)
  next
    case (Some e)
    with Pair show ?thesis by (cases e) (simp_all add: process_file_def)
  qed
qed

lemma process_file_documents:
  "all_documents (process_file loads fn c st) =
     all_documents st @ all_documents (process_file loads fn c \<lparr>all_documents = [], printed = []\<rparr>)"
  using try_file_documents [of loads fn c st] by (simp add: process_file_try_documents)

lemma process_file_parse_error:
  "fst (jsonl_loop loads fn 0 (splitlines c) 0 False st) = Inl JSONDecodeError \<Longrightarrow>
   process_file loads fn c st =
     print (ErrorParsingFile fn) (snd (jsonl_loop loads fn 0 (splitlines c) 0 False st))"
  by (cases "jsonl_loop loads fn 0 (splitlines c) 0 False st")
    (simp add: process_file_def try_file_def)

lemma process_file_attempting:
  "AttemptingArray fn \<in> set (printed (process_file loads fn c \<lparr>all_documents = docs, printed = []\<rparr>))
     \<longleftrightarrow> fst (jsonl_loop loads fn 0 (splitlines c) 0 False \<lparr>all_documents = docs, printed = []\<rparr>) = Inr False"
proof -
  let ?s = "\<lparr>all_documents = docs, printed = []\<rparr>"
  obtain r st1 where J: "jsonl_loop loads fn 0 (splitlines c) 0 False ?s = (r, st1)"
    by (cases "jsonl_loop loads fn 0 (splitlines c) 0 False ?s")
  have no: "AttemptingArray fn \<notin> set (printed st1)"
    using jsonl_loop_attempting [of fn loads fn 0 "splitlines c" 0 False ?s] J by simp
  show ?thesis
  proof (cases r)
    case (Inl e)
    with J no show ?thesis by (cases e) (simp_all add: process_file_def try_file_def)
  next
    case (Inr is_jsonl)
    show ?thesis
    proof (cases is_jsonl)
      case True
      with Inr J no show ?thesis by (simp add: process_file_def try_file_def)
    next
      case False
      let ?s2 = "print (AttemptingArray fn) st1"
      have in2: "AttemptingArray fn \<in> set (printed ?s2)" by simp
      show ?thesis
      proof (cases "loads c")
        case (Inl e)
        with False Inr J show ?thesis by (cases e) (simp_all add: process_file_def try_file_def)
      next
        case v: (Inr v)
        show ?thesis
        proof (cases "\<exists>items. v = JArr items")
          case False
          with v \<open>\<not> is_jsonl\<close> Inr J show ?thesis
            by (cases v) (simp_all add: process_file_def try_file_def)
        next
          case True
          then obtain items where i: "v = JArr items" by blast
          obtain a st3 where A: "array_loop fn 0 items ?s2 = (a, st3)"
            by (cases "array_loop fn 0 items ?s2")
          have "AttemptingArray fn \<in> set (printed st3)"
            using array_loop_printed_mono [OF in2, of fn 0 items] A by simp
          with v i \<open>\<not> is_jsonl\<close> Inr J A show ?thesis
            by (cases a; cases "the a") (simp_all add: process_file_def try_file_def)
        qed
      qed
    qed
  qed
qed

lemma process_file_not_array:
  assumes "fst (jsonl_loop loads fn 0 (splitlines c) 0 False st) = Inr False"
    and "loads c = Inr v" and "\<forall>items. v \<noteq> JArr items"
  shows "process_file loads fn c st =
     print (ErrorNotArray fn) (print (AttemptingArray fn) (snd (jsonl_loop loads fn 0 (splitlines c) 0 False st)))"
  using assms
  by (cases "jsonl_loop loads fn 0 (splitlines c) 0 False st"; cases v)
    (simp_all add: process_file_def try_file_def)

lemma try_file_nonblank:
  "doc \<in> set (all_documents (snd (try_file loads fn c st))) \<Longrightarrow>
   doc \<in> set (all_documents st) \<or> strip (doc_text doc) \<noteq> []"
proof -
  assume a: "doc \<in> set (all_documents (snd (try_file loads fn c st)))"
  obtain r st1 where J: "jsonl_loop loads fn 0 (splitlines c) 0 False st = (r, st1)"
    by (cases "jsonl_loop loads fn 0 (splitlines c) 0 False st")
  have d1: "all_documents st1 = all_documents st
      @ concat (map (line_documents loads) (takeWhile (line_parses loads) (splitlines c)))"
    using jsonl_loop_documents [of loads fn 0 "splitlines c" 0 False st] J by simp
  have i1: "\<And>x. x \<in> set (all_documents st1) \<Longrightarrow> x \<in> set (all_documents st) \<or> strip (doc_text x) \<noteq> []"
    unfolding d1 by (auto dest: line_documents_nonblank set_takeWhileD)
  have i3: "\<And>x items. x \<in> set (all_documents (snd (array_loop fn 0 items (print (AttemptingArray fn) st1)))) \<Longrightarrow>
      x \<in> set (all_documents st) \<or> strip (doc_text x) \<noteq> []"
    unfolding array_loop_documents using i1 by (auto dest: record_documents_nonblank set_takeWhileD)
  show ?thesis
  proof (cases r)
    case (Inl e)
    with J a i1 show ?thesis by (simp add: try_file_def)
  next
    case (Inr is_jsonl)
    show ?thesis
    proof (cases is_jsonl)
      case True
      with Inr J a i1 show ?thesis by (simp add: try_file_def)
    next
      case False
      show ?thesis
      proof (cases "loads c")
        case (Inl e)
        with False Inr J a i1 show ?thesis by (simp add: try_file_def)
      next
        case v: (Inr v)
        show ?thesis
        proof (cases "\<exists>items. v = JArr items")
          case False
          with v \<open>\<not> is_jsonl\<close> Inr J a i1 show ?thesis
            by (cases v) (simp_all add: try_file_def)
        next
          case True
          then obtain items where i: "v = JArr items" by blast
          obtain b st3 where A: "array_loop fn 0 items (print (AttemptingArray fn) st1) = (b, st3)"
            by (cases "array_loop fn 0 items (print (AttemptingArray fn) st1)")
          from i3 [of doc items] A have
            "doc \<in> set (all_documents st3) \<Longrightarrow> doc \<in> set (all_documents st) \<or> strip (doc_text doc) \<noteq> []"
            by simp
          with v i \<open>\<not> is_jsonl\<close> Inr J A a show ?thesis
            by (cases b) (simp_all add: try_file_def)
        qed
      qed
    qed
  qed
qed

subsection \<open>The directory and the whole run\<close>

lemma discourse_loop_read_returns: "fst (discourse_loop loads (files_read texts) st) = None"
  by (induction texts arbitrary: st) (auto simp: files_read_def)

lemma discourse_loop_read_documents:
  "all_documents (snd (discourse_loop loads (files_read texts) st)) =
     all_documents st @
     concat (map (\<lambda>f. all_documents
                    (snd (discourse_loop loads (files_read [f]) \<lparr>all_documents = [], printed = []\<rparr>)))
               texts)"
proof (induction texts arbitrary: st)
  case Nil
  then show ?case by (simp add: files_read_def)
next
  case (Cons f texts)
  obtain fn c where f: "f = (fn, c)" by (cases f)
  have r: "files_read (f # texts) = (fn, Inr c) # files_read texts"
    by (simp add: files_read_def f)
  have r1: "files_read [f] = [(fn, Inr c)]"
    by (simp add: files_read_def f)
  show ?case
    using process_file_documents [of loads fn c st]
    by (simp add: r r1 Cons.IH)
qed

lemma discourse_loop_nonblank:
  "doc \<in> set (all_documents (snd (discourse_loop loads files st))) \<Longrightarrow>
   doc \<in> set (all_documents st) \<or> strip (doc_text doc) \<noteq> []"
proof (induction files arbitrary: st)
  case Nil
  then show ?case by simp
next
  case (Cons f files)
  obtain fn opened where f: "f = (fn, opened)" by (cases f)
  show ?case
  proof (cases "endswith fn ''.jsonl'' \<or> endswith fn ''.json''")
    case False
    with Cons f show ?thesis by simp
  next
    case True
    show ?thesis
    proof (cases opened)
      case (Inl e)
      with True Cons.prems f show ?thesis by simp
    next
      case (Inr c)
      with True Cons.prems f
      have "doc \<in> set (all_documents (snd (discourse_loop loads files (process_file loads fn c st))))"
        by simp
      from Cons.IH [OF this] show ?thesis
        using try_file_nonblank [of doc loads fn c st] by (auto simp: process_file_try_documents)
    qed
  qed
qed

lemma course_loop_documents:
  "all_documents (course_loop docs st) = all_documents st @
     map (\<lambda>doc. doc\<lparr>doc_metadata := AList.update ''source_type'' (JStr ''course_content'') (doc_metadata doc)\<rparr>) docs"
  by (induction docs arbitrary: st) simp_all

lemma course_doc_not_discourse:
  "\<not> is_discourse_post (doc\<lparr>doc_metadata := AList.update ''source_type'' (JStr ''course_content'') (doc_metadata doc)\<rparr>)"
  by (simp add: is_discourse_post_def dict_get_def update_conv')

lemma load_course_content_not_discourse:
  "doc \<in> set (all_documents (snd (load_course_content data_dir course \<lparr>all_documents = [], printed = []\<rparr>)))
   \<Longrightarrow> \<not> is_discourse_post doc"
  by (auto simp: load_course_content_def Let_def course_loop_documents course_doc_not_discourse
      split: option.splits sum.splits)

lemma load_discourse_posts_nonblank:
  "doc \<in> set (all_documents (snd (load_discourse_posts loads data_dir discourse st))) \<Longrightarrow>
   doc \<in> set (all_documents st) \<or> strip (doc_text doc) \<noteq> []"
  by (auto simp: load_discourse_posts_def Let_def split: option.splits sum.splits
      dest: discourse_loop_nonblank)

lemma load_discourse_nonblank:
  "doc \<in> set (all_documents (snd (load_documents_with_metadata loads data_dir course discourse))) \<Longrightarrow>
   is_discourse_post doc \<Longrightarrow> strip (doc_text doc) \<noteq> []"
proof -
  let ?e = "\<lparr>all_documents = [], printed = []\<rparr>"
  assume a: "doc \<in> set (all_documents (snd (load_documents_with_metadata loads data_dir course discourse)))"
    and d: "is_discourse_post doc"
  obtain x st1 where C: "load_course_content data_dir course ?e = (x, st1)"
    by (cases "load_course_content data_dir course ?e")
  have c: "doc \<notin> set (all_documents st1)"
    using load_course_content_not_discourse [of doc data_dir course] C d by auto
  show ?thesis
  proof (cases x)
    case (Some e)
    with a C c show ?thesis by (simp add: load_documents_with_metadata_def)
  next
    case None
    obtain y st2 where D: "load_discourse_posts loads data_dir discourse st1 = (y, st2)"
      by (cases "load_discourse_posts loads data_dir discourse st1")
    from a C None D have "doc \<in> set (all_documents st2)"
      by (cases y) (simp_all add: load_documents_with_metadata_def)
    with load_discourse_posts_nonblank [of doc loads data_dir discourse st1] D c
    show ?thesis by simp
  qed
qed

lemma load_returns:
  "\<forall>e. course \<noteq> Some (Inl e) \<Longrightarrow>
   fst (load_documents_with_metadata loads data_dir course (Some (Inr (files_read texts)))) = None"
proof -
  let ?e = "\<lparr>all_documents = [], printed = []\<rparr>"
  assume c: "\<forall>e. course \<noteq> Some (Inl e)"
  obtain x st1 where C: "load_course_content data_dir course ?e = (x, st1)"
    by (cases "load_course_content data_dir course ?e")
  from c C have x: "x = None"
    by (auto simp: load_course_content_def Let_def split: option.splits sum.splits)
  obtain y st2 where D: "load_discourse_posts loads data_dir (Some (Inr (files_read texts))) st1 = (y, st2)"
    by (cases "load_discourse_posts loads data_dir (Some (Inr (files_read texts))) st1")
  from D have y: "y = None"
    using discourse_loop_read_returns [of loads texts "print (LoadingDiscoursePosts data_dir) st1"]
    by (simp add: load_discourse_posts_def Let_def)
  from C D x y show ?thesis by (simp add: load_documents_with_metadata_def)
qed

section \<open>The claims\<close>

subsection \<open>C1: links and shared URLs\<close>

text \<open>
  C1, as amended. The handler does not de-duplicate. When it answers with a response, the
  links list has one entry for every retrieved segment whose \<^verbatim>\<open>url\<close> is true (present and
  not empty), in retrieval order: the URLs of the links are the URLs of those segments,
  one by one. Segments that share a URL each give their own entry; a segment without a
  URL gives none.
\<close>

theorem C1_links_one_per_url_segment:
  "eng (strip (question request)) = Inr response \<Longrightarrow>
   query_ta (Some eng) request = (OK r, calls) \<Longrightarrow>
   map (\<lambda>l. JStr (link_url l)) (links r) =
     map (\<lambda>m. dict_get m ''url'') (filter (\<lambda>m. truthy (dict_get m ''url'')) (source_nodes response))"
proof -
  assume e: "eng (strip (question request)) = Inr response"
    and q: "query_ta (Some eng) request = (OK r, calls)"
  from query_ta_OK [OF q] e obtain ls where
    b: "build_links (source_nodes response) [] = Inr ls" and r: "links r = ls"
    by auto
  from build_links_fields [OF b]
  have "map fst (map (\<lambda>l. (JStr (link_url l), JStr (link_title l))) ls) =
     map fst (map (\<lambda>m. (dict_get m ''url'', node_title m))
         (filter (\<lambda>m. truthy (dict_get m ''url'')) (source_nodes response)))"
    by simp
  then show ?thesis using r by (simp add: comp_def)
qed

text \<open>
  The hypotheses hold for an engine that returns three segments, the first and the third
  with the same URL and the second with none: two links come back, both for that URL.
\<close>

theorem C1_links_one_per_url_segment_witness:
  "engine_returning
      \<lparr>response_str = ''Use pandas.'',
       source_nodes = [[(''url'', JStr ''http://a''), (''topic_title'', JStr ''Pandas Basics'')],
                       [(''topic_title'', JStr ''No link'')],
                       [(''url'', JStr ''http://a''), (''topic_title'', JStr ''Pandas Basics'')]]\<rparr>
      (strip (question \<lparr>question = ''pandas?'', image = None\<rparr>))
    = Inr \<lparr>response_str = ''Use pandas.'',
       source_nodes = [[(''url'', JStr ''http://a''), (''topic_title'', JStr ''Pandas Basics'')],
                       [(''topic_title'', JStr ''No link'')],
                       [(''url'', JStr ''http://a''), (''topic_title'', JStr ''Pandas Basics'')]]\<rparr>
   \<and> query_ta
       (Some (engine_returning
          \<lparr>response_str = ''Use pandas.'',
           source_nodes = [[(''url'', JStr ''http://a''), (''topic_title'', JStr ''Pandas Basics'')],
                           [(''topic_title'', JStr ''No link'')],
                           [(''url'', JStr ''http://a''), (''topic_title'', JStr ''Pandas Basics'')]]\<rparr>))
       \<lparr>question = ''pandas?'', image = None\<rparr>
     = (OK \<lparr>answer = ''Use pandas.'',
            links = [\<lparr>link_url = ''http://a'', link_title = ''Pandas Basics''\<rparr>,
                     \<lparr>link_url = ''http://a'', link_title = ''Pandas Basics''\<rparr>]\<rparr>,
        [''pandas?''])
   \<and> map (\<lambda>l. JStr (link_url l))
         (links \<lparr>answer = ''Use pandas.'',
            links = [\<lparr>link_url = ''http://a'', link_title = ''Pandas Basics''\<rparr>,
                     \<lparr>link_url = ''http://a'', link_title = ''Pandas Basics''\<rparr>]\<rparr>)
     = [JStr ''http://a'', JStr ''http://a'']"
proof -
  let ?R = "\<lparr>response_str = ''Use pandas.'',
       source_nodes = [[(''url'', JStr ''http://a''), (''topic_title'', JStr ''Pandas Basics'')],
                       [(''topic_title'', JStr ''No link'')],
                       [(''url'', JStr ''http://a''), (''topic_title'', JStr ''Pandas Basics'')]]\<rparr>"
  let ?q = "\<lparr>question = ''pandas?'', image = None\<rparr>"
  let ?r = "\<lparr>answer = ''Use pandas.'',
            links = [\<lparr>link_url = ''http://a'', link_title = ''Pandas Basics''\<rparr>,
                     \<lparr>link_url = ''http://a'', link_title = ''Pandas Basics''\<rparr>]\<rparr>"
  have a: "engine_returning ?R (strip (question ?q)) = Inr ?R"
    by (simp add: engine_returning_def)
  have b: "query_ta (Some (engine_returning ?R)) ?q = (OK ?r, [''pandas?''])"
    by (simp add: query_ta_def engine_returning_def strip_def isspace_def node_title_def
        py_or_def dict_get_def)
  from C1_links_one_per_url_segment [OF a b]
  have c: "map (\<lambda>l. JStr (link_url l)) (links ?r) = [JStr ''http://a'', JStr ''http://a'']"
    by (simp add: dict_get_def)
  from a b c show ?thesis by (intro conjI)
qed

text \<open>
  Against C1 as stated: two retrieved segments with the same URL give two link entries,
  not one.
\<close>

theorem C1_dedup_counterexample:
  "query_ta
     (Some (engine_returning
        \<lparr>response_str = ''Use pandas.'',
         source_nodes = [[(''url'', JStr ''http://a''), (''topic_title'', JStr ''Pandas Basics'')],
                         [(''url'', JStr ''http://a''), (''topic_title'', JStr ''Pandas Basics'')]]\<rparr>))
     \<lparr>question = ''How do I use pandas?'', image = None\<rparr>
   = (OK \<lparr>answer = ''Use pandas.'',
          links = [\<lparr>link_url = ''http://a'', link_title = ''Pandas Basics''\<rparr>,
                   \<lparr>link_url = ''http://a'', link_title = ''Pandas Basics''\<rparr>]\<rparr>,
      [''How do I use pandas?''])"
  by (simp add: query_ta_def engine_returning_def strip_def isspace_def node_title_def
      py_or_def dict_get_def)

subsection \<open>C2: malformed records and files\<close>

text \<open>
  C2, as amended. In a line-delimited file the lines are processed up to the first line
  that is not blank and is not JSON. Of the lines before it, a line whose record cannot be
  made into a Document (it is not an object, a tag in its list is not a string, its text
  is of another type) and a line on which \<^verbatim>\<open>json.loads\<close> raises another exception add
  nothing and are printed as an error with their line number, and the lines after them
  are still processed. A line that is not JSON and is not the first line of the file ends
  the processing of that file: the parse error is printed, the Documents of the lines
  before it are kept, the lines after it add nothing. A file whose text was read does not
  affect the other files and does not stop the run, whatever the text is: over a listing
  of files that were all read the loop ends without an exception, its Documents are those
  each file gives when it is processed alone, in listing order, and, when the course
  reader raises nothing either, \<^verbatim>\<open>load_documents_with_metadata\<close> returns.
\<close>

theorem C2_malformed_records_and_files:
  "all_documents (snd (jsonl_loop loads fn 0 lines 0 False st)) =
       all_documents st @ concat (map (line_documents loads) (takeWhile (line_parses loads) lines))
   \<and> (\<forall>i data e. i < length (takeWhile (line_parses loads) lines) \<longrightarrow> strip (lines ! i) \<noteq> [] \<longrightarrow>
        loads (lines ! i) = Inr data \<longrightarrow> build_document data = Inl e \<longrightarrow>
        ErrorProcessingLine (i + 1) fn e
          \<in> set (printed (snd (jsonl_loop loads fn 0 lines 0 False st))))
   \<and> (\<forall>i e. i < length (takeWhile (line_parses loads) lines) \<longrightarrow> strip (lines ! i) \<noteq> [] \<longrightarrow>
        loads (lines ! i) = Inl e \<longrightarrow> e \<noteq> JSONDecodeError \<longrightarrow>
        ErrorProcessingLine (i + 1) fn e
          \<in> set (printed (snd (jsonl_loop loads fn 0 lines 0 False st))))
   \<and> (\<forall>pre bad post. splitlines c = pre @ bad # post \<longrightarrow> pre \<noteq> [] \<longrightarrow>
        list_all (line_parses loads) pre \<longrightarrow> strip bad \<noteq> [] \<longrightarrow> loads bad = Inl JSONDecodeError \<longrightarrow>
        process_file loads fn c st =
          print (ErrorParsingFile fn) (snd (jsonl_loop loads fn 0 (splitlines c) 0 False st))
        \<and> all_documents (process_file loads fn c st) =
            all_documents st @ concat (map (line_documents loads) pre))
   \<and> fst (discourse_loop loads (files_read texts) st) = None
   \<and> all_documents (snd (discourse_loop loads (files_read texts) st)) =
       all_documents st @
       concat (map (\<lambda>f. all_documents
                      (snd (discourse_loop loads (files_read [f]) \<lparr>all_documents = [], printed = []\<rparr>)))
                 texts)
   \<and> ((\<forall>e. course_content \<noteq> Some (Inl e)) \<longrightarrow>
        fst (load_documents_with_metadata loads data_dir course_content
               (Some (Inr (files_read texts)))) = None)"
proof (intro conjI allI impI)
  show "all_documents (snd (jsonl_loop loads fn 0 lines 0 False st)) =
       all_documents st @ concat (map (line_documents loads) (takeWhile (line_parses loads) lines))"
    by (rule jsonl_loop_documents)
next
  fix i data e
  assume "i < length (takeWhile (line_parses loads) lines)" "strip (lines ! i) \<noteq> []"
    "loads (lines ! i) = Inr data" "build_document data = Inl e"
  from jsonl_loop_logs_error [OF this, of 0 fn 0 False st]
  show "ErrorProcessingLine (i + 1) fn e
          \<in> set (printed (snd (jsonl_loop loads fn 0 lines 0 False st)))"
    by simp
next
  fix i e
  assume "i < length (takeWhile (line_parses loads) lines)" "strip (lines ! i) \<noteq> []"
    "loads (lines ! i) = Inl e" "e \<noteq> JSONDecodeError"
  from jsonl_loop_logs_raise [OF this, of 0 fn 0 False st]
  show "ErrorProcessingLine (i + 1) fn e
          \<in> set (printed (snd (jsonl_loop loads fn 0 lines 0 False st)))"
    by simp
next
  fix pre bad post
  assume s: "splitlines c = pre @ bad # post" and ne: "pre \<noteq> []"
    and p: "list_all (line_parses loads) pre" and b: "strip bad \<noteq> []" "loads bad = Inl JSONDecodeError"
  from ne have "0 < 0 + length pre" by simp
  from jsonl_loop_invalid_line [OF p b this, of fn post 0 False st] s
  have r: "fst (jsonl_loop loads fn 0 (splitlines c) 0 False st) = Inl JSONDecodeError"
    by simp
  from process_file_parse_error [OF r]
  show e: "process_file loads fn c st =
          print (ErrorParsingFile fn) (snd (jsonl_loop loads fn 0 (splitlines c) 0 False st))" .
  show "all_documents (process_file loads fn c st) =
            all_documents st @ concat (map (line_documents loads) pre)"
    unfolding e using takeWhile_parsed_prefix [OF p b, of post] s
    by (simp add: jsonl_loop_documents)
next
  show "fst (discourse_loop loads (files_read texts) st) = None"
    by (rule discourse_loop_read_returns)
next
  show "all_documents (snd (discourse_loop loads (files_read texts) st)) =
       all_documents st @
       concat (map (\<lambda>f. all_documents
                      (snd (discourse_loop loads (files_read [f]) \<lparr>all_documents = [], printed = []\<rparr>)))
                 texts)"
    by (rule discourse_loop_read_documents)
next
  assume "\<forall>e. course_content \<noteq> Some (Inl e)"
  then show "fst (load_documents_with_metadata loads data_dir course_content
               (Some (Inr (files_read texts)))) = None"
    by (rule load_returns)
qed

text \<open>
  Instances. In the first file the first line, \<^verbatim>\<open>5\<close>, is JSON and not an object: it is
  printed as an error for line 1, and the record of the second line is still loaded. In
  the second file the second of three lines is not JSON: the Document of the first line
  is kept, nothing else is loaded, and the run over the directory returns. The third
  file is one line of 100000 opening brackets, on which \<^verbatim>\<open>json.loads\<close> raises
  \<^verbatim>\<open>RecursionError\<close>: the line is printed as an error for line 1.
\<close>

theorem C2_malformed_records_and_files_witness:
  \<open>0 < length (takeWhile
        (line_parses (loads_table
           [(''5'', Inr (JInt 5)),
            (''{"content": "first"}'', Inr (JObj [(''content'', JStr ''first'')])),
            (''{"content": "second"}'', Inr (JObj [(''content'', JStr ''second'')]))]))
        [''5'', ''{"content": "second"}''])
   \<and> strip ([''5'', ''{"content": "second"}''] ! 0) \<noteq> []
   \<and> loads_table
        [(''5'', Inr (JInt 5)),
         (''{"content": "first"}'', Inr (JObj [(''content'', JStr ''first'')])),
         (''{"content": "second"}'', Inr (JObj [(''content'', JStr ''second'')]))]
        ([''5'', ''{"content": "second"}''] ! 0) = Inr (JInt 5)
   \<and> build_document (JInt 5) = Inl AttributeError
   \<and> ErrorProcessingLine (0 + 1) ''posts.jsonl'' AttributeError
       \<in> set (printed (snd (jsonl_loop
            (loads_table
               [(''5'', Inr (JInt 5)),
                (''{"content": "first"}'', Inr (JObj [(''content'', JStr ''first'')])),
                (''{"content": "second"}'', Inr (JObj [(''content'', JStr ''second'')]))])
            ''posts.jsonl'' 0 [''5'', ''{"content": "second"}''] 0 False
            \<lparr>all_documents = [], printed = []\<rparr>)))
   \<and> map doc_text (all_documents (snd (jsonl_loop
            (loads_table
               [(''5'', Inr (JInt 5)),
                (''{"content": "first"}'', Inr (JObj [(''content'', JStr ''first'')])),
                (''{"content": "second"}'', Inr (JObj [(''content'', JStr ''second'')]))])
            ''posts.jsonl'' 0 [''5'', ''{"content": "second"}''] 0 False
            \<lparr>all_documents = [], printed = []\<rparr>)))
       = [''second'']
   \<and> splitlines ''{"content": "first"}\<newline>oops\<newline>{"content": "second"}''
       = [''{"content": "first"}''] @ ''oops'' # [''{"content": "second"}'']
   \<and> [''{"content": "first"}''] \<noteq> []
   \<and> list_all
        (line_parses (loads_table
           [(''5'', Inr (JInt 5)),
            (''{"content": "first"}'', Inr (JObj [(''content'', JStr ''first'')])),
            (''{"content": "second"}'', Inr (JObj [(''content'', JStr ''second'')]))]))
        [''{"content": "first"}'']
   \<and> strip ''oops'' \<noteq> []
   \<and> loads_table
        [(''5'', Inr (JInt 5)),
         (''{"content": "first"}'', Inr (JObj [(''content'', JStr ''first'')])),
         (''{"content": "second"}'', Inr (JObj [(''content'', JStr ''second'')]))] ''oops''
       = Inl JSONDecodeError
   \<and> map doc_text (all_documents (process_file
            (loads_table
               [(''5'', Inr (JInt 5)),
                (''{"content": "first"}'', Inr (JObj [(''content'', JStr ''first'')])),
                (''{"content": "second"}'', Inr (JObj [(''content'', JStr ''second'')]))])
            ''posts.jsonl'' ''{"content": "first"}\<newline>oops\<newline>{"content": "second"}''
            \<lparr>all_documents = [], printed = []\<rparr>))
       = [''first'']
   \<and> (\<forall>e. (None :: (py_exception + document list) option) \<noteq> Some (Inl e))
   \<and> fst (load_documents_with_metadata
            (loads_table
               [(''5'', Inr (JInt 5)),
                (''{"content": "first"}'', Inr (JObj [(''content'', JStr ''first'')])),
                (''{"content": "second"}'', Inr (JObj [(''content'', JStr ''second'')]))])
            ''data'' None
            (Some (Inr (files_read
               [(''posts.jsonl'', ''{"content": "first"}\<newline>oops\<newline>{"content": "second"}'')]))))
       = None
   \<and> 0 < length (takeWhile
        (line_parses (loads_table [(replicate 100000 (CHR ''[''), Inl RecursionError)]))
        [replicate 100000 (CHR ''['')])
   \<and> strip ([replicate 100000 (CHR ''['')] ! 0) \<noteq> []
   \<and> loads_table [(replicate 100000 (CHR ''[''), Inl RecursionError)]
        ([replicate 100000 (CHR ''['')] ! 0) = Inl RecursionError
   \<and> RecursionError \<noteq> JSONDecodeError
   \<and> ErrorProcessingLine (0 + 1) ''posts.jsonl'' RecursionError
       \<in> set (printed (snd (jsonl_loop
            (loads_table [(replicate 100000 (CHR ''[''), Inl RecursionError)])
            ''posts.jsonl'' 0 [replicate 100000 (CHR ''['')] 0 False
            \<lparr>all_documents = [], printed = []\<rparr>)))\<close>
proof -
  let ?L = \<open>loads_table
               [(''5'', Inr (JInt 5)),
                (''{"content": "first"}'', Inr (JObj [(''content'', JStr ''first'')])),
                (''{"content": "second"}'', Inr (JObj [(''content'', JStr ''second'')]))]\<close>
  let ?ls = \<open>[''5'', ''{"content": "second"}'']\<close>
  let ?c = \<open>''{"content": "first"}\<newline>oops\<newline>{"content": "second"}''\<close>
  let ?pre = \<open>[''{"content": "first"}'']\<close>
  let ?post = \<open>[''{"content": "second"}'']\<close>
  let ?s = "\<lparr>all_documents = [], printed = []\<rparr>"
  note T = C2_malformed_records_and_files
    [of ?L "''posts.jsonl''" ?ls ?s ?c "[(''posts.jsonl'', ?c)]" None "''data''"]
  have a: "0 < length (takeWhile (line_parses ?L) ?ls)" by code_simp
  have b: "strip (?ls ! 0) \<noteq> []" by code_simp
  have c: "?L (?ls ! 0) = Inr (JInt 5)" by code_simp
  have d: "build_document (JInt 5) = Inl AttributeError" by code_simp
  from T [THEN conjunct2, THEN conjunct1, rule_format, OF a b c d]
  have e: "ErrorProcessingLine (0 + 1) ''posts.jsonl'' AttributeError
       \<in> set (printed (snd (jsonl_loop ?L ''posts.jsonl'' 0 ?ls 0 False ?s)))" .
  have f: "map doc_text (all_documents (snd (jsonl_loop ?L ''posts.jsonl'' 0 ?ls 0 False ?s)))
       = [''second'']"
    by code_simp
  have g: "splitlines ?c = ?pre @ ''oops'' # ?post" by code_simp
  have h: "?pre \<noteq> []" by simp
  have i: "list_all (line_parses ?L) ?pre" by code_simp
  have j: "strip ''oops'' \<noteq> []" by code_simp
  have k: "?L ''oops'' = Inl JSONDecodeError" by code_simp
  from T [THEN conjunct2, THEN conjunct2, THEN conjunct2, THEN conjunct1, rule_format, OF g h i j k]
  have l0: "all_documents (process_file ?L ''posts.jsonl'' ?c ?s)
      = all_documents ?s @ concat (map (line_documents ?L) ?pre)"
    by (rule conjunct2)
  have l1: "map doc_text (all_documents ?s @ concat (map (line_documents ?L) ?pre)) = [''first'']"
    by code_simp
  have l: "map doc_text (all_documents (process_file ?L ''posts.jsonl'' ?c ?s)) = [''first'']"
    unfolding l0 by (rule l1)
  have m: "\<forall>e. (None :: (py_exception + document list) option) \<noteq> Some (Inl e)" by simp
  from T [THEN conjunct2, THEN conjunct2, THEN conjunct2, THEN conjunct2, THEN conjunct2,
      THEN conjunct2, rule_format, OF m [THEN spec]]
  have n: "fst (load_documents_with_metadata ?L ''data'' None
                 (Some (Inr (files_read [(''posts.jsonl'', ?c)])))) = None" .
  let ?deep = "replicate 100000 (CHR ''['')"
  let ?L2 = "loads_table [(?deep, Inl RecursionError)]"
  have deep: "?deep = CHR ''['' # replicate 99999 (CHR ''['')"
    by (simp only: replicate_Suc [symmetric]) simp
  have b2: "strip ([?deep] ! 0) \<noteq> []"
    unfolding nth_Cons_0 by (subst deep) (rule strip_nonblank_head, simp add: isspace_def)
  have c2: "?L2 ([?deep] ! 0) = Inl RecursionError"
    unfolding nth_Cons_0 loads_table_def by (simp only: map_of.simps fst_conv snd_conv fun_upd_same option.case)
  have a2: "0 < length (takeWhile (line_parses ?L2) [?deep])"
    using b2 c2 unfolding nth_Cons_0 line_parses_def
    by (simp only: takeWhile.simps if_False sum.case) simp
  have d2: "RecursionError \<noteq> JSONDecodeError" by simp
  note T2 = C2_malformed_records_and_files
    [of ?L2 "''posts.jsonl''" "[?deep]" ?s "[]" "[]" None "[]"]
  from T2 [THEN conjunct2, THEN conjunct2, THEN conjunct1, rule_format, OF a2 b2 c2 d2]
  have e2: "ErrorProcessingLine (0 + 1) ''posts.jsonl'' RecursionError
       \<in> set (printed (snd (jsonl_loop ?L2 ''posts.jsonl'' 0 [?deep] 0 False ?s)))" .
  from a b c d e f g h i j k l m n a2 b2 c2 d2 e2 show ?thesis by (intro conjI)
qed

text \<open>
  Against C2 as stated: the second of three lines is not JSON. The run prints a parse
  error for the file and returns the Document of the first line only; the valid record on
  the third line is never processed.
\<close>

theorem C2_malformed_line_counterexample:
  \<open>load_documents_with_metadata
     (loads_table [(''{"content": "first"}'', Inr (JObj [(''content'', JStr ''first'')])),
                   (''{"content": "second"}'', Inr (JObj [(''content'', JStr ''second'')]))])
     ''data'' None
     (Some (Inr [(''posts.jsonl'',
                  Inr ''{"content": "first"}\<newline>oops\<newline>{"content": "second"}'')]))
   = (None,
      \<lparr>all_documents =
         [\<lparr>doc_text = ''first'',
           doc_metadata =
             [(''url'', JStr []), (''topic_title'', JStr []), (''post_id'', JStr []),
              (''post_number'', JStr []), (''author'', JStr []), (''created_at'', JStr []),
              (''source_type'', JStr ''discourse_post''), (''tags'', JStr [])]\<rparr>],
       printed =
         [CourseContentNotFound ''data'', LoadingDiscoursePosts ''data'',
          ErrorParsingFile ''posts.jsonl'', LoadedTotal 1]\<rparr>)\<close>
  by code_simp

subsection \<open>C3: the fallback to a JSON array\<close>

text \<open>
  C3, as amended. The lines are tried first. The whole text is then parsed as one JSON
  value (which the loader announces by printing that it attempts the array) exactly when
  the very first line of the file is not blank and is not JSON, or no line of the file
  is parsed or found not to be JSON: every line is blank or makes \<^verbatim>\<open>json.loads\<close> raise
  an exception other than \<^verbatim>\<open>JSONDecodeError\<close>. When the value parsed in the fallback is
  not an array, no Document is added and the error is printed after the announcement.
\<close>

theorem C3_array_fallback:
  "(AttemptingArray fn
      \<in> set (printed (process_file loads fn c \<lparr>all_documents = docs, printed = []\<rparr>)))
     = (list_all (line_inert loads) (splitlines c)
        \<or> (\<exists>l rest. splitlines c = l # rest \<and> strip l \<noteq> [] \<and> loads l = Inl JSONDecodeError))
   \<and> (\<forall>v. AttemptingArray fn
              \<in> set (printed (process_file loads fn c \<lparr>all_documents = docs, printed = []\<rparr>)) \<longrightarrow>
          loads c = Inr v \<longrightarrow> (\<forall>items. v \<noteq> JArr items) \<longrightarrow>
          all_documents (process_file loads fn c \<lparr>all_documents = docs, printed = []\<rparr>) = docs
          \<and> printed (process_file loads fn c \<lparr>all_documents = docs, printed = []\<rparr>) =
              printed (snd (jsonl_loop loads fn 0 (splitlines c) 0 False
                              \<lparr>all_documents = docs, printed = []\<rparr>))
              @ [AttemptingArray fn, ErrorNotArray fn])"
proof (intro conjI allI impI)
  show "(AttemptingArray fn
      \<in> set (printed (process_file loads fn c \<lparr>all_documents = docs, printed = []\<rparr>)))
     = (list_all (line_inert loads) (splitlines c)
        \<or> (\<exists>l rest. splitlines c = l # rest \<and> strip l \<noteq> [] \<and> loads l = Inl JSONDecodeError))"
    unfolding process_file_attempting by (rule jsonl_loop_fallback)
next
  fix v
  let ?s = "\<lparr>all_documents = docs, printed = []\<rparr>"
  assume a: "AttemptingArray fn \<in> set (printed (process_file loads fn c ?s))"
    and v: "loads c = Inr v" "\<forall>items. v \<noteq> JArr items"
  from a have f: "fst (jsonl_loop loads fn 0 (splitlines c) 0 False ?s) = Inr False"
    by (simp only: process_file_attempting)
  note e = process_file_not_array [OF f v]
  from jsonl_loop_fallback_documents [OF f]
  show "all_documents (process_file loads fn c ?s) = docs"
    unfolding e by simp
  show "printed (process_file loads fn c ?s) =
              printed (snd (jsonl_loop loads fn 0 (splitlines c) 0 False ?s))
              @ [AttemptingArray fn, ErrorNotArray fn]"
    unfolding e by simp
qed

text \<open>
  An instance: a JSON object spread over three lines. Its first line is not JSON, the
  fallback parses the whole text, finds an object and prints the error.
\<close>

theorem C3_array_fallback_witness:
  \<open>AttemptingArray ''post.json''
     \<in> set (printed (process_file
          (loads_table [(''{\<newline>"content": "hi"\<newline>}'', Inr (JObj [(''content'', JStr ''hi'')]))])
          ''post.json'' ''{\<newline>"content": "hi"\<newline>}'' \<lparr>all_documents = [], printed = []\<rparr>))
   \<and> loads_table [(''{\<newline>"content": "hi"\<newline>}'', Inr (JObj [(''content'', JStr ''hi'')]))]
        ''{\<newline>"content": "hi"\<newline>}'' = Inr (JObj [(''content'', JStr ''hi'')])
   \<and> (\<forall>items. JObj [(''content'', JStr ''hi'')] \<noteq> JArr items)
   \<and> process_file
          (loads_table [(''{\<newline>"content": "hi"\<newline>}'', Inr (JObj [(''content'', JStr ''hi'')]))])
          ''post.json'' ''{\<newline>"content": "hi"\<newline>}'' \<lparr>all_documents = [], printed = []\<rparr>
       = \<lparr>all_documents = [],
          printed = [AttemptingArray ''post.json'', ErrorNotArray ''post.json'']\<rparr>\<close>
proof -
  let ?L = \<open>loads_table [(''{\<newline>"content": "hi"\<newline>}'', Inr (JObj [(''content'', JStr ''hi'')]))]\<close>
  let ?c = \<open>''{\<newline>"content": "hi"\<newline>}''\<close>
  let ?s = "\<lparr>all_documents = [], printed = []\<rparr>"
  note T = C3_array_fallback [of "''post.json''" ?L ?c "[]"]
  have \<open>splitlines ?c = ''{'' # [''"content": "hi"'', ''}''] \<and> strip ''{'' \<noteq> []
      \<and> ?L ''{'' = Inl JSONDecodeError\<close>
    by code_simp
  then have "\<exists>l rest. splitlines ?c = l # rest \<and> strip l \<noteq> [] \<and> ?L l = Inl JSONDecodeError"
    by blast
  with T [THEN conjunct1]
  have a: "AttemptingArray ''post.json'' \<in> set (printed (process_file ?L ''post.json'' ?c ?s))"
    by blast
  have b: "?L ?c = Inr (JObj [(''content'', JStr ''hi'')])" by code_simp
  have c: "\<forall>items. JObj [(''content'', JStr ''hi'')] \<noteq> JArr items" by simp
  note U = T [THEN conjunct2, rule_format, OF a b c [THEN spec]]
  have p: "printed (snd (jsonl_loop ?L ''post.json'' 0 (splitlines ?c) 0 False ?s)) = []"
    by code_simp
  from U p have "all_documents (process_file ?L ''post.json'' ?c ?s) = []
      \<and> printed (process_file ?L ''post.json'' ?c ?s)
          = [AttemptingArray ''post.json'', ErrorNotArray ''post.json'']"
    by simp
  then have d: "process_file ?L ''post.json'' ?c ?s
       = \<lparr>all_documents = [],
          printed = [AttemptingArray ''post.json'', ErrorNotArray ''post.json'']\<rparr>"
    by (cases "process_file ?L ''post.json'' ?c ?s") simp
  from a b c d show ?thesis by (intro conjI)
qed

text \<open>
  Against C3 as stated: a JSON array that follows an empty first line. The first line
  that is not blank, \<^verbatim>\<open>[\<close>, is not JSON, yet the loader does not fall back: it prints a
  parse error for the file and loads nothing, although the whole text is a JSON array
  with one record.
\<close>

theorem C3_fallback_counterexample:
  \<open>splitlines ''\<newline>[\<newline>{"content": "hi"}\<newline>]'' = ['''', ''['', ''{"content": "hi"}'', '']'']
   \<and> strip ''['' = ''[''
   \<and> loads_table
        [(''\<newline>[\<newline>{"content": "hi"}\<newline>]'', Inr (JArr [JObj [(''content'', JStr ''hi'')]])),
         (''{"content": "hi"}'', Inr (JObj [(''content'', JStr ''hi'')]))] ''[''
       = Inl JSONDecodeError
   \<and> load_documents_with_metadata
        (loads_table
           [(''\<newline>[\<newline>{"content": "hi"}\<newline>]'', Inr (JArr [JObj [(''content'', JStr ''hi'')]])),
            (''{"content": "hi"}'', Inr (JObj [(''content'', JStr ''hi'')]))])
        ''data'' None
        (Some (Inr [(''posts.json'', Inr ''\<newline>[\<newline>{"content": "hi"}\<newline>]'')]))
     = (None,
        \<lparr>all_documents = [],
         printed = [CourseContentNotFound ''data'', LoadingDiscoursePosts ''data'',
                    ErrorParsingFile ''posts.json'', LoadedTotal 0]\<rparr>)\<close>
  by code_simp

subsection \<open>C4: content before cooked\<close>



subsection \<open>C5: the tags value\<close>

text \<open>
  C5, as amended. The \<^verbatim>\<open>tags\<close> value of the Document built from a discussion record is
  the record's list of strings joined with a comma and a space when \<^verbatim>\<open>tags\<close> is a list, the
  string unchanged when \<^verbatim>\<open>tags\<close> is a string, the empty string when \<^verbatim>\<open>tags\<close> is absent or
  null, and any other value unchanged (so a number or a truth value stays what it is and
  is not a string). It is never a list.
\<close>

theorem C5_tags_value:
  "build_document (JObj d) = Inr doc \<Longrightarrow>
     (\<forall>xs. map_of d ''tags'' = Some (JArr xs) \<longrightarrow>
        (\<exists>ss. xs = map JStr ss \<and> dict_get (doc_metadata doc) ''tags'' = JStr (join '', '' ss)))
   \<and> (\<forall>s. map_of d ''tags'' = Some (JStr s) \<longrightarrow> dict_get (doc_metadata doc) ''tags'' = JStr s)
   \<and> (map_of d ''tags'' = None \<or> map_of d ''tags'' = Some JNull \<longrightarrow>
        dict_get (doc_metadata doc) ''tags'' = JStr [])
   \<and> (\<forall>v. map_of d ''tags'' = Some v \<longrightarrow> (\<forall>xs. v \<noteq> JArr xs) \<longrightarrow> v \<noteq> JNull \<longrightarrow>
        dict_get (doc_metadata doc) ''tags'' = v)
   \<and> (\<forall>xs. dict_get (doc_metadata doc) ''tags'' \<noteq> JArr xs)"
proof -
  assume "build_document (JObj d) = Inr doc"
  from build_document_Inr [OF this] obtain t where
    t: "processed_tags (dict_get d ''tags'') = Inr t" "dict_get (doc_metadata doc) ''tags'' = t"
    by auto
  from processed_tags_cases [OF t(1)] t(2) show ?thesis
    by (auto simp: dict_get_def split: option.splits)
qed

text \<open>
  An instance: the list of the two tags \<^verbatim>\<open>python\<close> and \<^verbatim>\<open>data\<close>.
\<close>

theorem C5_tags_value_witness:
  "build_document (JObj [(''content'', JStr ''Use pandas for X.''),
                         (''tags'', JArr [JStr ''python'', JStr ''data''])])
     = Inr \<lparr>doc_text = ''Use pandas for X.'',
            doc_metadata =
              [(''url'', JStr []), (''topic_title'', JStr []), (''post_id'', JStr []),
               (''post_number'', JStr []), (''author'', JStr []), (''created_at'', JStr []),
               (''source_type'', JStr ''discourse_post''), (''tags'', JStr ''python, data'')]\<rparr>
   \<and> map_of [(''content'', JStr ''Use pandas for X.''),
              (''tags'', JArr [JStr ''python'', JStr ''data''])] ''tags''
       = Some (JArr [JStr ''python'', JStr ''data''])
   \<and> (\<exists>ss. [JStr ''python'', JStr ''data''] = map JStr ss
         \<and> JStr ''python, data'' = JStr (join '', '' ss))"
proof -
  let ?d = "[(''content'', JStr ''Use pandas for X.''),
             (''tags'', JArr [JStr ''python'', JStr ''data''])]"
  let ?doc = "\<lparr>doc_text = ''Use pandas for X.'',
            doc_metadata =
              [(''url'', JStr []), (''topic_title'', JStr []), (''post_id'', JStr []),
               (''post_number'', JStr []), (''author'', JStr []), (''created_at'', JStr []),
               (''source_type'', JStr ''discourse_post''), (''tags'', JStr ''python, data'')]\<rparr>"
  have a: "build_document (JObj ?d) = Inr ?doc" by code_simp
  have b: "map_of ?d ''tags'' = Some (JArr [JStr ''python'', JStr ''data''])" by simp
  from C5_tags_value [OF a, THEN conjunct1, rule_format, OF b]
  have c: "\<exists>ss. [JStr ''python'', JStr ''data''] = map JStr ss
         \<and> JStr ''python, data'' = JStr (join '', '' ss)"
    by (simp add: dict_get_def)
  from a b c show ?thesis by (intro conjI)
qed

text \<open>
  Against C5 as stated: a record whose \<^verbatim>\<open>tags\<close> is the number 5 is loaded, and the
  \<^verbatim>\<open>tags\<close> value of its Document is the number 5, not a string.
\<close>

theorem C5_scalar_string_counterexample:
  \<open>all_documents (snd
     (load_documents_with_metadata
        (loads_table [(''{"content": "x", "tags": 5}'',
                       Inr (JObj [(''content'', JStr ''x''), (''tags'', JInt 5)]))])
        ''data'' None
        (Some (Inr [(''posts.jsonl'', Inr ''{"content": "x", "tags": 5}'')]))))
   = [\<lparr>doc_text = ''x'',
       doc_metadata =
         [(''url'', JStr []), (''topic_title'', JStr []), (''post_id'', JStr []),
          (''post_number'', JStr []), (''author'', JStr []), (''created_at'', JStr []),
          (''source_type'', JStr ''discourse_post''), (''tags'', JInt 5)]\<rparr>]\<close>
  by code_simp

subsection \<open>C6: no Document with blank text\<close>

text \<open>
  C6, as amended. Every Document of a discussion post that a run holds has text that is
  not empty after trimming. A discussion record whose resolved text is empty or
  whitespace only adds no Document, in the loop over lines and in the loop over array
  items alike: the documents are those of the rest of the loop. (The documents of the
  course reader are appended without such a test.)
\<close>

theorem C6_empty_text_excluded:
  "(\<forall>doc. doc \<in> set (all_documents (snd
                (load_documents_with_metadata loads data_dir course_content discourse_posts))) \<longrightarrow>
       is_discourse_post doc \<longrightarrow> strip (doc_text doc) \<noteq> [])
   \<and> (\<forall>data doc. strip line \<noteq> [] \<longrightarrow> loads line = Inr data \<longrightarrow> build_document data = Inr doc \<longrightarrow>
        strip (doc_text doc) = [] \<longrightarrow>
        all_documents (snd (jsonl_loop loads fn n (line # rest) lp ij st)) =
          all_documents (snd (jsonl_loop loads fn (Suc n) rest (Suc lp) True st)))
   \<and> (\<forall>doc. build_document item = Inr doc \<longrightarrow> strip (doc_text doc) = [] \<longrightarrow>
        all_documents (snd (array_loop fn n (item # items) st)) =
          all_documents (snd (array_loop fn (Suc n) items st)))"
  by (auto simp: load_discourse_nonblank jsonl_loop_documents array_loop_documents)

text \<open>
  An instance: of two records, the one with the whitespace-only text is left out.
\<close>

theorem C6_empty_text_excluded_witness:
  \<open>all_documents (snd
     (load_documents_with_metadata
        (loads_table [(''{"content": "   "}'', Inr (JObj [(''content'', JStr ''   '')])),
                      (''{"content": "hi"}'', Inr (JObj [(''content'', JStr ''hi'')]))])
        ''data'' None
        (Some (Inr [(''posts.jsonl'', Inr ''{"content": "   "}\<newline>{"content": "hi"}'')]))))
   = [\<lparr>doc_text = ''hi'',
       doc_metadata =
         [(''url'', JStr []), (''topic_title'', JStr []), (''post_id'', JStr []),
          (''post_number'', JStr []), (''author'', JStr []), (''created_at'', JStr []),
          (''source_type'', JStr ''discourse_post''), (''tags'', JStr [])]\<rparr>]
   \<and> is_discourse_post
       \<lparr>doc_text = ''hi'',
        doc_metadata =
         [(''url'', JStr []), (''topic_title'', JStr []), (''post_id'', JStr []),
          (''post_number'', JStr []), (''author'', JStr []), (''created_at'', JStr []),
          (''source_type'', JStr ''discourse_post''), (''tags'', JStr [])]\<rparr>
   \<and> strip (doc_text
       \<lparr>doc_text = ''hi'',
        doc_metadata =
         [(''url'', JStr []), (''topic_title'', JStr []), (''post_id'', JStr []),
          (''post_number'', JStr []), (''author'', JStr []), (''created_at'', JStr []),
          (''source_type'', JStr ''discourse_post''), (''tags'', JStr [])]\<rparr>) \<noteq> []\<close>
proof -
  let ?L = \<open>loads_table [(''{"content": "   "}'', Inr (JObj [(''content'', JStr ''   '')])),
                      (''{"content": "hi"}'', Inr (JObj [(''content'', JStr ''hi'')]))]\<close>
  let ?f = \<open>Some (Inr [(''posts.jsonl'', Inr ''{"content": "   "}\<newline>{"content": "hi"}'')])\<close>
  let ?doc = "\<lparr>doc_text = ''hi'',
        doc_metadata =
         [(''url'', JStr []), (''topic_title'', JStr []), (''post_id'', JStr []),
          (''post_number'', JStr []), (''author'', JStr []), (''created_at'', JStr []),
          (''source_type'', JStr ''discourse_post''), (''tags'', JStr [])]\<rparr>"
  have a: "all_documents (snd (load_documents_with_metadata ?L ''data'' None ?f)) = [?doc]"
    by code_simp
  then have m: "?doc \<in> set (all_documents (snd (load_documents_with_metadata ?L ''data'' None ?f)))"
    by simp
  have b: "is_discourse_post ?doc" by code_simp
  from C6_empty_text_excluded [of ?L "''data''" None ?f, THEN conjunct1, rule_format, OF m b]
  have c: "strip (doc_text ?doc) \<noteq> []" .
  from a b c show ?thesis by (intro conjI)
qed

text \<open>
  Against C6 as stated, for every Document produced: a course document whose text is two
  spaces is appended and returned.
\<close>

theorem C6_blank_course_document_counterexample:
  "strip ''  '' = []
   \<and> load_documents_with_metadata (loads_table []) ''data''
       (Some (Inr [\<lparr>doc_text = ''  '', doc_metadata = [(''file_name'', JStr ''empty.md'')]\<rparr>]))
       None
     = (None,
        \<lparr>all_documents =
           [\<lparr>doc_text = ''  '',
             doc_metadata = [(''file_name'', JStr ''empty.md''),
                             (''source_type'', JStr ''course_content'')]\<rparr>],
         printed = [LoadingCourseContent ''data'', LoadedCourseContent 1,
                    DiscourseNotFound ''data'', LoadedTotal 1]\<rparr>)"
  by code_simp

subsection \<open>C7: the title of a link\<close>

text \<open>
  C7. When the handler answers with a response, the titles of the links are, segment by
  segment, the first of \<^verbatim>\<open>title\<close>, \<^verbatim>\<open>topic_title\<close>, \<^verbatim>\<open>text\<close> and the URL that is present,
  else the literal ``No Title Available''. In particular a segment without \<^verbatim>\<open>title\<close>, with
  \<^verbatim>\<open>topic_title\<close> ``Intro to X'' and \<^verbatim>\<open>url\<close> ``http://x'', gives the link title
  ``Intro to X''.
\<close>

theorem C7_title_priority:
  "(\<forall>response r calls.
       eng (strip (question request)) = Inr response \<longrightarrow>
       query_ta (Some eng) request = (OK r, calls) \<longrightarrow>
       map (\<lambda>l. JStr (link_title l)) (links r) =
         map title_priority_spec
           (filter (\<lambda>m. truthy (dict_get m ''url'')) (source_nodes response)))
   \<and> (map_of metadata ''title'' = None \<longrightarrow>
      map_of metadata ''topic_title'' = Some (JStr ''Intro to X'') \<longrightarrow>
      map_of metadata ''url'' = Some (JStr ''http://x'') \<longrightarrow>
      build_links [metadata] [] = Inr [\<lparr>link_url = ''http://x'', link_title = ''Intro to X''\<rparr>])"
proof (intro conjI allI impI)
  fix response r calls
  assume e: "eng (strip (question request)) = Inr response"
    and q: "query_ta (Some eng) request = (OK r, calls)"
  from query_ta_OK [OF q] e obtain ls where
    b: "build_links (source_nodes response) [] = Inr ls" and r: "links r = ls"
    by auto
  from build_links_fields [OF b]
  have "map snd (map (\<lambda>l. (JStr (link_url l), JStr (link_title l))) ls) =
     map snd (map (\<lambda>m. (dict_get m ''url'', node_title m))
         (filter (\<lambda>m. truthy (dict_get m ''url'')) (source_nodes response)))"
    by simp
  then show "map (\<lambda>l. JStr (link_title l)) (links r) =
         map title_priority_spec
           (filter (\<lambda>m. truthy (dict_get m ''url'')) (source_nodes response))"
    using r by (simp add: comp_def node_title_spec)
next
  assume "map_of metadata ''title'' = None"
    "map_of metadata ''topic_title'' = Some (JStr ''Intro to X'')"
    "map_of metadata ''url'' = Some (JStr ''http://x'')"
  then show "build_links [metadata] [] = Inr [\<lparr>link_url = ''http://x'', link_title = ''Intro to X''\<rparr>]"
    by (simp add: node_title_def py_or_def dict_get_def)
qed

text \<open>
  An instance: the segment of the claim, alone and as the answer of an engine.
\<close>

theorem C7_title_priority_witness:
  "map_of [(''topic_title'', JStr ''Intro to X''), (''url'', JStr ''http://x'')] ''title'' = None
   \<and> map_of [(''topic_title'', JStr ''Intro to X''), (''url'', JStr ''http://x'')] ''topic_title''
       = Some (JStr ''Intro to X'')
   \<and> map_of [(''topic_title'', JStr ''Intro to X''), (''url'', JStr ''http://x'')] ''url''
       = Some (JStr ''http://x'')
   \<and> build_links [[(''topic_title'', JStr ''Intro to X''), (''url'', JStr ''http://x'')]] []
       = Inr [\<lparr>link_url = ''http://x'', link_title = ''Intro to X''\<rparr>]
   \<and> query_ta
       (Some (engine_returning
          \<lparr>response_str = ''See the introduction.'',
           source_nodes = [[(''topic_title'', JStr ''Intro to X''), (''url'', JStr ''http://x'')]]\<rparr>))
       \<lparr>question = ''What is X?'', image = None\<rparr>
     = (OK \<lparr>answer = ''See the introduction.'',
            links = [\<lparr>link_url = ''http://x'', link_title = ''Intro to X''\<rparr>]\<rparr>,
        [''What is X?''])
   \<and> map (\<lambda>l. JStr (link_title l))
         (links \<lparr>answer = ''See the introduction.'',
                 links = [\<lparr>link_url = ''http://x'', link_title = ''Intro to X''\<rparr>]\<rparr>)
     = [JStr ''Intro to X'']"
proof -
  let ?m = "[(''topic_title'', JStr ''Intro to X''), (''url'', JStr ''http://x'')]"
  let ?R = "\<lparr>response_str = ''See the introduction.'', source_nodes = [?m]\<rparr>"
  let ?q = "\<lparr>question = ''What is X?'', image = None\<rparr>"
  let ?r = "\<lparr>answer = ''See the introduction.'',
            links = [\<lparr>link_url = ''http://x'', link_title = ''Intro to X''\<rparr>]\<rparr>"
  note T = C7_title_priority [of "engine_returning ?R" ?q ?m]
  have a: "map_of ?m ''title'' = None" by simp
  have b: "map_of ?m ''topic_title'' = Some (JStr ''Intro to X'')" by simp
  have c: "map_of ?m ''url'' = Some (JStr ''http://x'')" by simp
  from T [THEN conjunct2, rule_format, OF a b c]
  have d: "build_links [?m] [] = Inr [\<lparr>link_url = ''http://x'', link_title = ''Intro to X''\<rparr>]" .
  have e: "engine_returning ?R (strip (question ?q)) = Inr ?R"
    by (simp add: engine_returning_def)
  have f: "query_ta (Some (engine_returning ?R)) ?q = (OK ?r, [''What is X?''])"
    by (simp add: query_ta_def engine_returning_def strip_def isspace_def node_title_def
        py_or_def dict_get_def)
  from T [THEN conjunct1, rule_format, OF e f]
  have g: "map (\<lambda>l. JStr (link_title l)) (links ?r) = [JStr ''Intro to X'']"
    by (simp add: title_priority_spec_def present_def dict_get_def)
  from a b c d f g show ?thesis by (intro conjI)
qed

subsection \<open>C8: the empty question\<close>

text \<open>
  C8. With the engine initialised, a request whose question is empty after trimming is
  answered with status 400, and no question is passed to the engine.
\<close>

theorem C8_empty_question:
  "strip (question request) = [] \<Longrightarrow>
   query_ta (Some eng) request = (HTTPException 400 (Detail ''Question cannot be empty.''), [])"
  by (simp add: query_ta_def)

text \<open>
  An instance: a question of three spaces.
\<close>

theorem C8_empty_question_witness:
  "strip (question \<lparr>question = ''   '', image = None\<rparr>) = []
   \<and> query_ta (Some (engine_returning \<lparr>response_str = ''ok'', source_nodes = []\<rparr>))
        \<lparr>question = ''   '', image = None\<rparr>
      = (HTTPException 400 (Detail ''Question cannot be empty.''), [])"
  using C8_empty_question [of "\<lparr>question = ''   '', image = None\<rparr>"
      "engine_returning \<lparr>response_str = ''ok'', source_nodes = []\<rparr>"]
  by (simp add: strip_spaces)

subsection \<open>C9: the engine that is not ready\<close>

text \<open>
  C9. A request handled while the global query engine is unset (before start-up has
  finished, or after start-up failed) is answered with status 503: not a success
  response, and the engine is not called.
\<close>

theorem C9_engine_not_ready:
  "query_ta None request =
     (HTTPException 503 (Detail ''Virtual TA engine not initialized. Please try again later.''), [])
   \<and> query_ta (startup_event (Inl e)) request =
     (HTTPException 503 (Detail ''Virtual TA engine not initialized. Please try again later.''), [])"
  by (simp add: query_ta_def startup_event_def)

subsection \<open>C10: readiness before validation\<close>

text \<open>
  C10. The readiness check comes first: an empty or whitespace-only question arriving
  while the engine is unset is answered with status 503, not with status 400.
\<close>

theorem C10_ready_check_first:
  "strip (question request) = [] \<Longrightarrow>
   fst (query_ta None request) =
     HTTPException 503 (Detail ''Virtual TA engine not initialized. Please try again later.'')
   \<and> fst (query_ta None request) \<noteq> HTTPException 400 (Detail ''Question cannot be empty.'')"
  by (simp add: query_ta_def)

text \<open>
  An instance: a question of three spaces and no engine.
\<close>

theorem C10_ready_check_first_witness:
  "strip (question \<lparr>question = ''   '', image = None\<rparr>) = []
   \<and> fst (query_ta None \<lparr>question = ''   '', image = None\<rparr>) =
     HTTPException 503 (Detail ''Virtual TA engine not initialized. Please try again later.'')
   \<and> fst (query_ta None \<lparr>question = ''   '', image = None\<rparr>)
       \<noteq> HTTPException 400 (Detail ''Question cannot be empty.'')"
  using C10_ready_check_first [of "\<lparr>question = ''   '', image = None\<rparr>"]
  by (simp add: strip_spaces)

end
